theory Spec2Isabelle
  imports
    Complex_Main
    "HOL-Library.Word"
    "HOL-Library.Char_ord"
    "HOL-Library.List_Lexorder"
    "HOL-Library.Multiset"
begin

unbundle bit_operations_syntax

section \<open>Strings and bytes\<close>

text \<open>
  The route handlers of \<^verbatim>\<open>document-submissions/route.ts\<close> work on JavaScript strings
  and Node buffers. Both are modelled as lists of 8-bit characters: a buffer is its bytes,
  a string is its UTF-8 encoding. On ASCII text (every concrete token below) a character,
  a UTF-16 code unit and a byte coincide, so \<open>length\<close>, comparison and sorting are the
  ones of the source.
\<close>

type_synonym bytes = string
type_synonym u32 = "32 word"

definition code :: "char \<Rightarrow> nat" where
  "code c = of_char c"

definition byte_of_nat :: "nat \<Rightarrow> char" where
  "byte_of_nat n = char_of n"

definition LF :: char where
  "LF = CHR 0x0A"

definition is_digit :: "char \<Rightarrow> bool" where
  "is_digit c = (48 \<le> code c \<and> code c \<le> 57)"

definition is_hex :: "char \<Rightarrow> bool" where
  "is_hex c = (is_digit c \<or> (97 \<le> code c \<and> code c \<le> 102) \<or> (65 \<le> code c \<and> code c \<le> 70))"

definition hex_val :: "char \<Rightarrow> nat" where
  "hex_val c = (if is_digit c then code c - 48
                else if 97 \<le> code c then code c - 87 else code c - 55)"

section \<open>SHA-256 and HMAC (Node's \<^verbatim>\<open>crypto.createHmac("sha256", key)\<close>)\<close>

text \<open>
  \<^verbatim>\<open>crypto\<close> is a library of the platform; the handlers use it for HMAC-SHA256 only.
  It is modelled by the algorithms it implements: SHA-256 of FIPS 180-4 on 32-bit words
  and HMAC of RFC 2104 with the 64-byte block of SHA-256.
\<close>

definition K256 :: "u32 list" where
  "K256 = [
    1116352408, 1899447441, 3049323471, 3921009573, 961987163, 1508970993, 2453635748, 2870763221,
    3624381080, 310598401, 607225278, 1426881987, 1925078388, 2162078206, 2614888103, 3248222580,
    3835390401, 4022224774, 264347078, 604807628, 770255983, 1249150122, 1555081692, 1996064986,
    2554220882, 2821834349, 2952996808, 3210313671, 3336571891, 3584528711, 113926993, 338241895,
    666307205, 773529912, 1294757372, 1396182291, 1695183700, 1986661051, 2177026350, 2456956037,
    2730485921, 2820302411, 3259730800, 3345764771, 3516065817, 3600352804, 4094571909, 275423344,
    430227734, 506948616, 659060556, 883997877, 958139571, 1322822218, 1537002063, 1747873779,
    1955562222, 2024104815, 2227730452, 2361852424, 2428436474, 2756734187, 3204031479, 3329325298]"

definition H256 :: "u32 list" where
  "H256 = [1779033703, 3144134277, 1013904242, 2773480762,
           1359893119, 2600822924, 528734635, 1541459225]"

definition rotr :: "nat \<Rightarrow> u32 \<Rightarrow> u32" where
  "rotr n x = drop_bit n x OR push_bit (32 - n) x"

definition Ch :: "u32 \<Rightarrow> u32 \<Rightarrow> u32 \<Rightarrow> u32" where
  "Ch x y z = (x AND y) XOR (NOT x AND z)"

definition Maj :: "u32 \<Rightarrow> u32 \<Rightarrow> u32 \<Rightarrow> u32" where
  "Maj x y z = (x AND y) XOR (x AND z) XOR (y AND z)"

definition bsig0 :: "u32 \<Rightarrow> u32" where
  "bsig0 x = rotr 2 x XOR rotr 13 x XOR rotr 22 x"

definition bsig1 :: "u32 \<Rightarrow> u32" where
  "bsig1 x = rotr 6 x XOR rotr 11 x XOR rotr 25 x"

definition ssig0 :: "u32 \<Rightarrow> u32" where
  "ssig0 x = rotr 7 x XOR rotr 18 x XOR drop_bit 3 x"

definition ssig1 :: "u32 \<Rightarrow> u32" where
  "ssig1 x = rotr 17 x XOR rotr 19 x XOR drop_bit 10 x"

text \<open>Big-endian: the \<open>k\<close> low bytes of \<open>n\<close>, most significant first.\<close>

definition be_bytes :: "nat \<Rightarrow> nat \<Rightarrow> bytes" where
  "be_bytes k n = map (\<lambda>i. byte_of_nat (n div 256 ^ i)) (rev [0..<k])"

definition be_word :: "bytes \<Rightarrow> u32" where
  "be_word bs = word_of_nat (foldl (\<lambda>a c. a * 256 + code c) 0 bs)"

function chunks :: "nat \<Rightarrow> 'a list \<Rightarrow> 'a list list" where
  "chunks n xs = (if n = 0 \<or> xs = [] then [] else take n xs # chunks n (drop n xs))"
  by pat_completeness auto
termination
  by (relation "measure (\<lambda>(n, xs). length xs)") auto

declare chunks.simps [simp del]

text \<open>Padding: the bit 1, zeros up to 56 modulo 64 bytes, the length in bits on 8 bytes.\<close>

definition pad :: "bytes \<Rightarrow> bytes" where
  "pad m = m @ [byte_of_nat 0x80] @ replicate ((119 - length m mod 64) mod 64) (byte_of_nat 0)
             @ be_bytes 8 (8 * length m)"

fun schedule :: "nat \<Rightarrow> u32 list \<Rightarrow> u32 list" where
  "schedule 0 w = w"
| "schedule (Suc k) w =
     (let t = length w in
      schedule k (w @ [ssig1 (w ! (t - 2)) + w ! (t - 7) + ssig0 (w ! (t - 15)) + w ! (t - 16)]))"

fun round256 :: "u32 list \<Rightarrow> u32 \<times> u32 \<Rightarrow> u32 list" where
  "round256 [a, b, c, d, e, f, g, h] (k, w) =
     (let t1 = h + bsig1 e + Ch e f g + k + w;
          t2 = bsig0 a + Maj a b c
      in [t1 + t2, a, b, c, d + t1, e, f, g])"
| "round256 s _ = s"

definition compress :: "u32 list \<Rightarrow> bytes \<Rightarrow> u32 list" where
  "compress hs block =
     (let w = schedule 48 (map be_word (chunks 4 block))
      in map2 (+) hs (foldl round256 hs (zip K256 w)))"

definition sha256 :: "bytes \<Rightarrow> bytes" where
  "sha256 m = concat (map (\<lambda>w. be_bytes 4 (unat w)) (foldl compress H256 (chunks 64 (pad m))))"

definition xor_byte :: "nat \<Rightarrow> char \<Rightarrow> char" where
  "xor_byte p c = byte_of_nat (p XOR code c)"

definition hmac_sha256 :: "bytes \<Rightarrow> bytes \<Rightarrow> bytes" where
  "hmac_sha256 key msg =
     (let k0 = (if length key > 64 then sha256 key else key);
          k = k0 @ replicate (64 - length k0) (byte_of_nat 0)
      in sha256 (map (xor_byte 0x5c) k @ sha256 (map (xor_byte 0x36) k @ msg)))"

text \<open>\<^verbatim>\<open>digest("hex")\<close>: two lowercase hexadecimal digits per byte.\<close>

definition hex_digit :: "nat \<Rightarrow> char" where
  "hex_digit n = (if n < 10 then byte_of_nat (48 + n) else byte_of_nat (87 + n))"

definition to_hex :: "bytes \<Rightarrow> string" where
  "to_hex bs = concat (map (\<lambda>c. [hex_digit (code c div 16), hex_digit (code c mod 16)]) bs)"

text \<open>
  \<^verbatim>\<open>Buffer.from(s, "hex")\<close> decodes pairs of hexadecimal digits of either case and stops at
  the first pair that is not one (the rest of the string is dropped, as is a last single
  character).
\<close>

fun buffer_from_hex :: "string \<Rightarrow> bytes" where
  "buffer_from_hex (a # b # rest) =
     (if is_hex a \<and> is_hex b then byte_of_nat (16 * hex_val a + hex_val b) # buffer_from_hex rest
      else [])"
| "buffer_from_hex _ = []"

datatype js_error = RangeError | SyntaxError

text \<open>\<^verbatim>\<open>crypto.timingSafeEqual\<close> throws a RangeError on buffers of different lengths.\<close>

definition timingSafeEqual :: "bytes \<Rightarrow> bytes \<Rightarrow> js_error + bool" where
  "timingSafeEqual a b = (if length a \<noteq> length b then Inl RangeError else Inr (a = b))"

section \<open>\<^verbatim>\<open>URLSearchParams\<close>\<close>

text \<open>
  \<^verbatim>\<open>new URLSearchParams(init)\<close> on a string, after the URL standard: a leading \<^verbatim>\<open>?\<close> is
  dropped; the string is split at every \<^verbatim>\<open>&\<close>; empty pieces are skipped; a piece is split
  at its first \<^verbatim>\<open>=\<close> (no \<^verbatim>\<open>=\<close>: the value is empty); in name and value \<^verbatim>\<open>+\<close> becomes a
  space and \<^verbatim>\<open>%XX\<close> the byte XX. The result keeps the order and the duplicates.
\<close>

fun split_on :: "char \<Rightarrow> string \<Rightarrow> string list" where
  "split_on c [] = [[]]"
| "split_on c (x # xs) =
     (if x = c then [] # split_on c xs
      else (case split_on c xs of [] \<Rightarrow> [[x]] | f # fs \<Rightarrow> (x # f) # fs))"

fun percent_decode :: "string \<Rightarrow> bytes" where
  "percent_decode (c # h1 # h2 # rest) =
     (if c = CHR ''%'' \<and> is_hex h1 \<and> is_hex h2
      then byte_of_nat (16 * hex_val h1 + hex_val h2) # percent_decode rest
      else c # percent_decode (h1 # h2 # rest))"
| "percent_decode (c # rest) = c # percent_decode rest"
| "percent_decode [] = []"

definition plus_to_space :: "string \<Rightarrow> string" where
  "plus_to_space s = map (\<lambda>c. if c = CHR ''+'' then CHR '' '' else c) s"

definition form_decode :: "string \<Rightarrow> string" where
  "form_decode s = percent_decode (plus_to_space s)"

definition parse_pair :: "string \<Rightarrow> string \<times> string" where
  "parse_pair piece =
     (let name = takeWhile (\<lambda>c. c \<noteq> CHR ''='') piece;
          val = drop 1 (dropWhile (\<lambda>c. c \<noteq> CHR ''='') piece)
      in (form_decode name, form_decode val))"

definition parse_urlencoded :: "string \<Rightarrow> (string \<times> string) list" where
  "parse_urlencoded s = map parse_pair (filter (\<lambda>piece. piece \<noteq> []) (split_on CHR ''&'' s))"

definition URLSearchParams :: "string \<Rightarrow> (string \<times> string) list" where
  "URLSearchParams init =
     parse_urlencoded
       (case init of c # rest \<Rightarrow> if c = CHR ''?'' then rest else init | [] \<Rightarrow> init)"

text \<open>\<^verbatim>\<open>params.get(name)\<close>: the value of the first pair of that name, or null.\<close>

definition params_get :: "(string \<times> string) list \<Rightarrow> string \<Rightarrow> string option" where
  "params_get params name = map_of params name"

text \<open>\<^verbatim>\<open>pairs.join("\n")\<close>\<close>

fun join_lines :: "string list \<Rightarrow> string" where
  "join_lines [] = []"
| "join_lines [x] = x"
| "join_lines (x # y # ys) = x @ LF # join_lines (y # ys)"

section \<open>\<^verbatim>\<open>JSON.parse\<close>\<close>

text \<open>
  \<^verbatim>\<open>JSON.parse\<close> is modelled by a parser of the JSON grammar (ECMA-404): a lexer that reads
  one character at a time, then a parser that keeps the open arrays and objects on a
  stack. \<open>None\<close> is the SyntaxError it throws. A number is kept as the exact value of its
  decimal literal (the rounding to a binary64 float is not modelled). A \<^verbatim>\<open>\uXXXX\<close> escape
  becomes the UTF-8 bytes of that code unit.
\<close>

datatype json =
    JNull
  | JBool bool
  | JNum rat
  | JStr string
  | JArr "json list"
  | JObj "(string \<times> json) list"

datatype jtok =
    TLBrace | TRBrace | TLBrack | TRBrack | TColon | TComma
  | TStr string | TNum rat | TTrue | TFalse | TNull

definition digits_val :: "string \<Rightarrow> nat" where
  "digits_val ds = foldl (\<lambda>a c. 10 * a + (code c - 48)) 0 ds"

definition strip_char :: "char \<Rightarrow> string \<Rightarrow> bool \<times> string" where
  "strip_char c s = (case s of x # r \<Rightarrow> if x = c then (True, r) else (False, s) | [] \<Rightarrow> (False, s))"

definition scale10 :: "nat \<Rightarrow> int \<Rightarrow> rat" where
  "scale10 m e = (if 0 \<le> e then of_nat m * 10 ^ nat e else of_nat m / 10 ^ nat (- e))"

text \<open>number = [-] (0 | 1-9 digits) [. digits+] [(e|E) [+|-] digits+]\<close>

definition parse_number :: "string \<Rightarrow> rat option" where
  "parse_number s =
     (let (neg, s1) = strip_char CHR ''-'' s;
          ip = takeWhile is_digit s1;
          s2 = dropWhile is_digit s1;
          int_ok = (ip \<noteq> [] \<and> (length ip = 1 \<or> take 1 ip \<noteq> ''0''));
          (has_frac, s2') = strip_char CHR ''.'' s2;
          fp = (if has_frac then takeWhile is_digit s2' else []);
          s3 = (if has_frac then dropWhile is_digit s2' else s2);
          frac_ok = (if has_frac then fp \<noteq> [] else True);
          has_exp = (take 1 s3 = ''e'' \<or> take 1 s3 = ''E'');
          s4 = (if has_exp then drop 1 s3 else s3);
          (eneg, s5) = (if has_exp then strip_char CHR ''-'' s4 else (False, s4));
          s5' = (if has_exp \<and> \<not> eneg then snd (strip_char CHR ''+'' s5) else s5);
          ep = (if has_exp then takeWhile is_digit s5' else []);
          s6 = (if has_exp then dropWhile is_digit s5' else s5');
          exp_ok = (if has_exp then ep \<noteq> [] else True);
          e = (if eneg then - int (digits_val ep) else int (digits_val ep)) - int (length fp);
          v = scale10 (digits_val (ip @ fp)) e
      in if int_ok \<and> frac_ok \<and> exp_ok \<and> s6 = [] then Some (if neg then - v else v) else None)"

definition word_token :: "string \<Rightarrow> jtok option" where
  "word_token w =
     (if w = ''true'' then Some TTrue
      else if w = ''false'' then Some TFalse
      else if w = ''null'' then Some TNull
      else map_option TNum (parse_number w))"

definition utf8 :: "nat \<Rightarrow> bytes" where
  "utf8 n =
     (if n < 0x80 then [byte_of_nat n]
      else if n < 0x800 then [byte_of_nat (0xC0 + n div 64), byte_of_nat (0x80 + n mod 64)]
      else [byte_of_nat (0xE0 + n div 4096), byte_of_nat (0x80 + n div 64 mod 64),
            byte_of_nat (0x80 + n mod 64)])"

definition hex_number :: "string \<Rightarrow> nat" where
  "hex_number hs = foldl (\<lambda>a c. 16 * a + hex_val c) 0 hs"

text \<open>
  The lexer's state: between tokens; inside a string (the characters read, last first);
  after a backslash; inside \<^verbatim>\<open>\u\<close> (the digits read); inside a number or a literal name
  (the characters read, last first).
\<close>

datatype lex_state = LIdle | LStr string | LEsc string | LUni string string | LWord string

definition is_ws :: "char \<Rightarrow> bool" where
  "is_ws c = (code c = 32 \<or> code c = 9 \<or> code c = 10 \<or> code c = 13)"

definition is_word_char :: "char \<Rightarrow> bool" where
  "is_word_char c =
     (is_digit c \<or> c = CHR ''-'' \<or> c = CHR ''+'' \<or> c = CHR ''.'' \<or> c = CHR ''E''
      \<or> (97 \<le> code c \<and> code c \<le> 122))"

definition lex_idle :: "char \<Rightarrow> (lex_state \<times> jtok list) option" where
  "lex_idle c =
     (if is_ws c then Some (LIdle, [])
      else if c = CHR ''{'' then Some (LIdle, [TLBrace])
      else if c = CHR ''}'' then Some (LIdle, [TRBrace])
      else if c = CHR ''['' then Some (LIdle, [TLBrack])
      else if c = CHR '']'' then Some (LIdle, [TRBrack])
      else if c = CHR '':'' then Some (LIdle, [TColon])
      else if c = CHR '','' then Some (LIdle, [TComma])
      else if c = CHR 0x22 then Some (LStr [], [])
      else if is_word_char c then Some (LWord [c], [])
      else None)"

definition lex_escape :: "string \<Rightarrow> char \<Rightarrow> (lex_state \<times> jtok list) option" where
  "lex_escape acc c =
     (if c = CHR 0x22 \<or> c = CHR 0x5C \<or> c = CHR ''/'' then Some (LStr (c # acc), [])
      else if c = CHR ''b'' then Some (LStr (byte_of_nat 8 # acc), [])
      else if c = CHR ''f'' then Some (LStr (byte_of_nat 12 # acc), [])
      else if c = CHR ''n'' then Some (LStr (byte_of_nat 10 # acc), [])
      else if c = CHR ''r'' then Some (LStr (byte_of_nat 13 # acc), [])
      else if c = CHR ''t'' then Some (LStr (byte_of_nat 9 # acc), [])
      else if c = CHR ''u'' then Some (LUni acc [], [])
      else None)"

fun lex_step :: "lex_state \<Rightarrow> char \<Rightarrow> (lex_state \<times> jtok list) option" where
  "lex_step LIdle c = lex_idle c"
| "lex_step (LStr acc) c =
     (if c = CHR 0x22 then Some (LIdle, [TStr (rev acc)])
      else if c = CHR 0x5C then Some (LEsc acc, [])
      else if code c < 32 then None
      else Some (LStr (c # acc), []))"
| "lex_step (LEsc acc) c = lex_escape acc c"
| "lex_step (LUni acc hs) c =
     (if \<not> is_hex c then None
      else if length hs = 3 then Some (LStr (rev (utf8 (hex_number (hs @ [c]))) @ acc), [])
      else Some (LUni acc (hs @ [c]), []))"
| "lex_step (LWord acc) c =
     (if is_word_char c then Some (LWord (c # acc), [])
      else (case word_token (rev acc) of
              None \<Rightarrow> None
            | Some t \<Rightarrow> map_option (\<lambda>(st, ts). (st, t # ts)) (lex_idle c)))"

fun lex :: "lex_state \<Rightarrow> string \<Rightarrow> jtok list option" where
  "lex st [] =
     (case st of
        LIdle \<Rightarrow> Some []
      | LWord acc \<Rightarrow> map_option (\<lambda>t. [t]) (word_token (rev acc))
      | _ \<Rightarrow> None)"
| "lex st (c # cs) =
     (case lex_step st c of
        None \<Rightarrow> None
      | Some (st', ts) \<Rightarrow> map_option (\<lambda>rest. ts @ rest) (lex st' cs))"

text \<open>
  The parser's stack holds the open containers: an array with its elements so far, an
  object with its members so far and the key waiting for its value (both last first).
\<close>

datatype frame = FArr "json list" | FObj "(string \<times> json) list" "string option"

datatype phase =
    ExpectValue | ExpectValueOrClose | ExpectKeyOrClose | ExpectKey | ExpectColon
  | AfterValue | Done json

fun complete :: "json \<Rightarrow> frame list \<Rightarrow> (frame list \<times> phase) option" where
  "complete v [] = Some ([], Done v)"
| "complete v (FArr acc # st) = Some (FArr (v # acc) # st, AfterValue)"
| "complete v (FObj ms (Some k) # st) = Some (FObj ((k, v) # ms) None # st, AfterValue)"
| "complete v (FObj ms None # st) = None"

fun close_array :: "frame list \<Rightarrow> (frame list \<times> phase) option" where
  "close_array (FArr acc # st) = complete (JArr (rev acc)) st"
| "close_array _ = None"

fun close_object :: "frame list \<Rightarrow> (frame list \<times> phase) option" where
  "close_object (FObj ms None # st) = complete (JObj (rev ms)) st"
| "close_object _ = None"

fun open_key :: "string \<Rightarrow> frame list \<Rightarrow> (frame list \<times> phase) option" where
  "open_key k (FObj ms None # st) = Some (FObj ms (Some k) # st, ExpectColon)"
| "open_key k _ = None"

fun value_token :: "frame list \<Rightarrow> jtok \<Rightarrow> (frame list \<times> phase) option" where
  "value_token st TLBrack = Some (FArr [] # st, ExpectValueOrClose)"
| "value_token st TLBrace = Some (FObj [] None # st, ExpectKeyOrClose)"
| "value_token st (TStr s) = complete (JStr s) st"
| "value_token st (TNum n) = complete (JNum n) st"
| "value_token st TTrue = complete (JBool True) st"
| "value_token st TFalse = complete (JBool False) st"
| "value_token st TNull = complete JNull st"
| "value_token st _ = None"

fun parse_step :: "frame list \<times> phase \<Rightarrow> jtok \<Rightarrow> (frame list \<times> phase) option" where
  "parse_step (st, ExpectValue) t = value_token st t"
| "parse_step (st, ExpectValueOrClose) t =
     (if t = TRBrack then close_array st else value_token st t)"
| "parse_step (st, ExpectKeyOrClose) t =
     (case t of TStr k \<Rightarrow> open_key k st | TRBrace \<Rightarrow> close_object st | _ \<Rightarrow> None)"
| "parse_step (st, ExpectKey) t = (case t of TStr k \<Rightarrow> open_key k st | _ \<Rightarrow> None)"
| "parse_step (st, ExpectColon) t = (if t = TColon then Some (st, ExpectValue) else None)"
| "parse_step (st, AfterValue) t =
     (case t of
        TComma \<Rightarrow>
          (case st of
             FArr acc # r \<Rightarrow> Some (st, ExpectValue)
           | FObj ms k # r \<Rightarrow> Some (st, ExpectKey)
           | [] \<Rightarrow> None)
      | TRBrack \<Rightarrow> close_array st
      | TRBrace \<Rightarrow> close_object st
      | _ \<Rightarrow> None)"
| "parse_step (st, Done v) t = None"

fun parse_tokens :: "frame list \<times> phase \<Rightarrow> jtok list \<Rightarrow> (frame list \<times> phase) option" where
  "parse_tokens s [] = Some s"
| "parse_tokens s (t # ts) =
     (case parse_step s t of None \<Rightarrow> None | Some s' \<Rightarrow> parse_tokens s' ts)"

definition JSON_parse :: "string \<Rightarrow> json option" where
  "JSON_parse text =
     (case lex LIdle text of
        None \<Rightarrow> None
      | Some ts \<Rightarrow>
          (case parse_tokens ([], ExpectValue) ts of
             Some ([], Done v) \<Rightarrow> Some v
           | _ \<Rightarrow> None))"

text \<open>
  \<^verbatim>\<open>typeof parsedUser?.id === "number" ? parsedUser.id : null\<close>. Only an object has an
  \<^verbatim>\<open>id\<close> of its own; the last member of that name is the one \<^verbatim>\<open>JSON.parse\<close> keeps.
\<close>

fun number_id :: "json \<Rightarrow> rat option" where
  "number_id (JObj ms) = (case map_of (rev ms) ''id'' of Some (JNum n) \<Rightarrow> Some n | _ \<Rightarrow> None)"
| "number_id _ = None"

section \<open>\<^verbatim>\<open>validateTelegramInitData\<close>\<close>

record init_result =
  valid :: bool
  userId :: "rat option"

text \<open>
  The body of the \<^verbatim>\<open>try\<close> block. \<open>Inl\<close> is an exception thrown inside it: the RangeError
  of \<^verbatim>\<open>timingSafeEqual\<close>, the SyntaxError of \<^verbatim>\<open>JSON.parse\<close>. \<^verbatim>\<open>!hash\<close> and \<^verbatim>\<open>!userParam\<close>
  hold for null and for the empty string.
\<close>

definition dataCheckString :: "(string \<times> string) list \<Rightarrow> string" where
  "dataCheckString params =
     join_lines (sort (map (\<lambda>(key, val). key @ ''='' @ val)
                      (filter (\<lambda>(key, val). key \<noteq> ''hash'') params)))"

definition computed_hash :: "(string \<times> string) list \<Rightarrow> string \<Rightarrow> string" where
  "computed_hash params botToken =
     (let secret = hmac_sha256 ''WebAppData'' botToken
      in to_hex (hmac_sha256 secret (dataCheckString params)))"

text \<open>What the block returns once the signature has matched: it reads \<^verbatim>\<open>user\<close>.\<close>

definition user_result :: "(string \<times> string) list \<Rightarrow> js_error + init_result" where
  "user_result params =
     (case params_get params ''user'' of
        None \<Rightarrow> Inr \<lparr>valid = True, userId = None\<rparr>
      | Some userParam \<Rightarrow>
          if userParam = [] then Inr \<lparr>valid = True, userId = None\<rparr>
          else
            (case JSON_parse userParam of
               None \<Rightarrow> Inl SyntaxError
             | Some parsedUser \<Rightarrow> Inr \<lparr>valid = True, userId = number_id parsedUser\<rparr>))"

definition validate_try :: "string \<Rightarrow> string \<Rightarrow> js_error + init_result" where
  "validate_try initData botToken =
     (let params = URLSearchParams initData in
      case params_get params ''hash'' of
        None \<Rightarrow> Inr \<lparr>valid = False, userId = None\<rparr>
      | Some hash \<Rightarrow>
          if hash = [] then Inr \<lparr>valid = False, userId = None\<rparr>
          else
            let computed = computed_hash params botToken in
            if length computed \<noteq> length hash then Inr \<lparr>valid = False, userId = None\<rparr>
            else
              (case timingSafeEqual (buffer_from_hex computed) (buffer_from_hex hash) of
                 Inl e \<Rightarrow> Inl e
               | Inr same \<Rightarrow>
                   if \<not> same then Inr \<lparr>valid = False, userId = None\<rparr>
                   else user_result params))"

text \<open>The \<^verbatim>\<open>catch\<close> block turns every exception into the invalid result.\<close>

definition validateTelegramInitData :: "string \<Rightarrow> string \<Rightarrow> init_result" where
  "validateTelegramInitData initData botToken =
     (case validate_try initData botToken of
        Inl err \<Rightarrow> \<lparr>valid = False, userId = None\<rparr>
      | Inr r \<Rightarrow> r)"

text \<open>The three results of the specification's \<open>verify\<close>.\<close>

definition Invalid :: init_result where
  "Invalid = \<lparr>valid = False, userId = None\<rparr>"

definition ValidNoIdentity :: init_result where
  "ValidNoIdentity = \<lparr>valid = True, userId = None\<rparr>"

definition ValidWithIdentity :: "rat \<Rightarrow> init_result" where
  "ValidWithIdentity n = \<lparr>valid = True, userId = Some n\<rparr>"

section \<open>The store, the requests and the responses\<close>

text \<open>
  The table \<^verbatim>\<open>document_submissions\<close> is a list of rows with the columns the handlers
  write; the bucket \<^verbatim>\<open>shartnoma_zip\<close> is a list of stored objects; \<open>calls\<close> records every
  call made to Supabase, in order.
\<close>

record row =
  first_name :: string
  last_name :: string
  university :: string
  program :: string
  doc_path :: "string option"
  telegram_chat_id :: "rat option"

record File =
  file_name :: string
  file_type :: string
  file_bytes :: bytes

datatype call = CSelect rat | CUpload string | CInsert row | CUpdate rat

record store =
  rows :: "row list"
  blobs :: "(string \<times> File) list"
  calls :: "call list"

text \<open>
  What a handler cannot decide by itself, one value per call of a handler: the variable
  \<^verbatim>\<open>TELEGRAM_BOT_TOKEN\<close> of the environment (\<open>None\<close>: not set), \<^verbatim>\<open>Date.now()\<close>, the six
  characters taken from \<^verbatim>\<open>Math.random()\<close>, and what Supabase answers: whether a select
  fails, whether the upload fails or which path it reports, whether the insert or the
  update fails and how.
\<close>

datatype db_error = UniqueViolation | OtherError

datatype upload_reply = UploadError | UploadData string

record env =
  TELEGRAM_BOT_TOKEN :: "string option"
  now :: nat
  random36 :: string
  select_error :: bool
  upload_reply :: upload_reply
  insert_error :: "db_error option"
  update_error :: "db_error option"

text \<open>A form field is a string or a \<^verbatim>\<open>File\<close>; \<^verbatim>\<open>formData()\<close> throws on a body that is no form.\<close>

datatype form_value = FString string | FFile File

record request =
  query :: string
  header_x_telegram_init :: "string option"
  form :: "(string \<times> form_value) list option"

record submission =
  firstName :: string
  lastName :: string
  sub_university :: string
  sub_program :: string
  docPath :: "string option"

datatype body =
    Message string
  | Exists bool
  | ExistsSubmission bool "submission option"
  | Ok
  | OkDocPath "string option"

record response =
  status :: nat
  body :: body

definition json_response :: "body \<Rightarrow> nat \<Rightarrow> response" where
  "json_response b st = \<lparr>status = st, body = b\<rparr>"

text \<open>\<^verbatim>\<open>formData.get(name)?.toString()\<close>\<close>

fun to_string :: "form_value \<Rightarrow> string" where
  "to_string (FString s) = s"
| "to_string (FFile f) = ''[object File]''"

definition form_string :: "(string \<times> form_value) list \<Rightarrow> string \<Rightarrow> string option" where
  "form_string fd name = map_option to_string (map_of fd name)"

text \<open>\<^verbatim>\<open>!s\<close> for a string that may be undefined.\<close>

fun falsy :: "string option \<Rightarrow> bool" where
  "falsy None = True"
| "falsy (Some s) = (s = [])"

text \<open>\<^verbatim>\<open>!userId\<close> for a number that may be null.\<close>

fun no_user :: "rat option \<Rightarrow> bool" where
  "no_user None = True"
| "no_user (Some n) = (n = 0)"

function show_nat :: "nat \<Rightarrow> string" where
  "show_nat n =
     (if n < 10 then [byte_of_nat (48 + n)]
      else show_nat (n div 10) @ [byte_of_nat (48 + n mod 10)])"
  by pat_completeness auto
termination
  by (relation "measure (\<lambda>n. n)") auto

declare show_nat.simps [simp del]

text \<open>\<^verbatim>\<open>document.name.replace(/[^a-zA-Z0-9.-]/g, "_")\<close>\<close>

definition safe_char :: "char \<Rightarrow> bool" where
  "safe_char c =
     ((97 \<le> code c \<and> code c \<le> 122) \<or> (65 \<le> code c \<and> code c \<le> 90) \<or> is_digit c
      \<or> c = CHR ''.'' \<or> c = CHR ''-'')"

definition safeFileName :: "string \<Rightarrow> string" where
  "safeFileName name = map (\<lambda>c. if safe_char c then c else CHR ''_'') name"

definition filePath :: "env \<Rightarrow> File \<Rightarrow> string" where
  "filePath e document =
     ''documents/'' @ show_nat (now e) @ ''-'' @ random36 e @ ''-'' @ safeFileName (file_name document)"

section \<open>The calls to Supabase\<close>

definition matching :: "rat \<Rightarrow> row \<Rightarrow> bool" where
  "matching uid r = (telegram_chat_id r = Some uid)"

text \<open>\<^verbatim>\<open>.select(...).eq("telegram_chat_id", userId).limit(1)\<close>: an error, or at most one row.\<close>

definition db_select :: "env \<Rightarrow> store \<Rightarrow> rat \<Rightarrow> (row list) option \<times> store" where
  "db_select e s uid =
     (let s' = s\<lparr>calls := calls s @ [CSelect uid]\<rparr>
      in if select_error e then (None, s') else (Some (take 1 (filter (matching uid) (rows s))), s'))"

text \<open>\<^verbatim>\<open>storage.from("shartnoma_zip").upload(filePath, document, ...)\<close>\<close>

definition storage_upload :: "env \<Rightarrow> store \<Rightarrow> string \<Rightarrow> File \<Rightarrow> upload_reply \<times> store" where
  "storage_upload e s path document =
     (let s' = s\<lparr>calls := calls s @ [CUpload path]\<rparr>
      in case upload_reply e of
           UploadError \<Rightarrow> (UploadError, s')
         | UploadData p \<Rightarrow> (UploadData p, s'\<lparr>blobs := blobs s' @ [(path, document)]\<rparr>))"

text \<open>\<^verbatim>\<open>.insert(row)\<close>\<close>

definition db_insert :: "env \<Rightarrow> store \<Rightarrow> row \<Rightarrow> db_error option \<times> store" where
  "db_insert e s r =
     (let s' = s\<lparr>calls := calls s @ [CInsert r]\<rparr>
      in case insert_error e of
           Some err \<Rightarrow> (Some err, s')
         | None \<Rightarrow> (None, s'\<lparr>rows := rows s' @ [r]\<rparr>))"



section \<open>The handlers\<close>

text \<open>A string that may be undefined, when it is truthy.\<close>

fun truthy :: "string option \<Rightarrow> string option" where
  "truthy None = None"
| "truthy (Some s) = (if s = [] then None else Some s)"



definition msg_check_failed :: string where
  "msg_check_failed = ''Tekshirishda xatolik''"

definition msg_not_verified :: string where
  "msg_not_verified = ''Telegram ma'' @ [CHR 0x27] @ ''lumotlari tasdiqlanmadi''"

definition msg_no_user :: string where
  "msg_no_user = ''Telegram foydalanuvchisi aniqlanmadi''"

definition msg_already :: string where
  "msg_already = ''Siz allaqachon topshirdingiz''"




text \<open>The four text fields of the form, when all are present and not empty.\<close>

definition text_fields :: "(string \<times> form_value) list \<Rightarrow> (string \<times> string \<times> string \<times> string) option" where
  "text_fields fd =
     (case (truthy (form_string fd ''firstName''), truthy (form_string fd ''lastName''),
            truthy (form_string fd ''university''), truthy (form_string fd ''program'')) of
        (Some f, Some l, Some u, Some p) \<Rightarrow> Some (f, l, u, p)
      | _ \<Rightarrow> None)"

text \<open>\<^verbatim>\<open>document instanceof File\<close>\<close>

definition document_file :: "(string \<times> form_value) list \<Rightarrow> File option" where
  "document_file fd = (case map_of fd ''document'' of Some (FFile f) \<Rightarrow> Some f | _ \<Rightarrow> None)"

text \<open>The end of \<^verbatim>\<open>POST\<close>: the upload, then the insert.\<close>

definition upload_and_insert ::
  "env \<Rightarrow> store \<Rightarrow> string \<times> string \<times> string \<times> string \<Rightarrow> File \<Rightarrow> rat option \<Rightarrow> response \<times> store" where
  "upload_and_insert e s flds document telegramUserId =
     (case flds of (f, l, u, p) \<Rightarrow>
        (case storage_upload e s (filePath e document) document of
           (UploadError, s1) \<Rightarrow> (json_response (Message ''Failed to upload document'') 500, s1)
         | (UploadData path, s1) \<Rightarrow>
             if path = [] then (json_response (Message ''Failed to upload document'') 500, s1)
             else
               (case db_insert e s1
                       \<lparr>first_name = f, last_name = l, university = u, program = p,
                        doc_path = Some path, telegram_chat_id = telegramUserId\<rparr> of
                  (Some err, s2) \<Rightarrow> (json_response (Message ''Failed to save submission'') 500, s2)
                | (None, s2) \<Rightarrow> (json_response Ok 200, s2))))"

definition POST :: "env \<Rightarrow> store \<Rightarrow> request \<Rightarrow> response \<times> store" where
  "POST e s req =
     (case form req of
        None \<Rightarrow> (json_response (Message ''Unexpected error'') 500, s)
      | Some formData \<Rightarrow>
          (case (text_fields formData, document_file formData) of
             (Some flds, Some document) \<Rightarrow>
               (case (truthy (form_string formData ''initData''), truthy (TELEGRAM_BOT_TOKEN e)) of
                  (Some initData, Some token) \<Rightarrow>
                    (let r = validateTelegramInitData initData token in
                     if \<not> valid r then (json_response (Message msg_not_verified) 401, s)
                     else
                       (case userId r of
                          None \<Rightarrow> (json_response (Message msg_no_user) 400, s)
                        | Some uid \<Rightarrow>
                            if uid = 0 then (json_response (Message msg_no_user) 400, s)
                            else
                              (case db_select e s uid of
                                 (None, s1) \<Rightarrow> (json_response (Message msg_check_failed) 500, s1)
                               | (Some existing, s1) \<Rightarrow>
                                   if existing \<noteq> []
                                   then (json_response (Message msg_already) 409, s1)
                                   else upload_and_insert e s1 flds document (Some uid))))
                | _ \<Rightarrow> upload_and_insert e s flds document None)
           | _ \<Rightarrow> (json_response (Message ''Missing required fields'') 400, s)))"


section \<open>Notions used in the statements\<close>

text \<open>
  A token as the platform issues it: the payload, then the \<^verbatim>\<open>hash\<close> field holding the
  signature of the payload under the secret.
\<close>

definition signed_token :: "string \<Rightarrow> string \<Rightarrow> string" where
  "signed_token payload secret =
     payload @ ''&hash='' @ computed_hash (URLSearchParams payload) secret"

text \<open>The example of the specification: \<^verbatim>\<open>a=1&b=2&hash=<H>\<close>.\<close>

definition example_signature :: "string \<Rightarrow> string" where
  "example_signature secret =
     to_hex (hmac_sha256 (hmac_sha256 ''WebAppData'' secret) (''a=1'' @ [LF] @ ''b=2''))"

definition example_token :: "string \<Rightarrow> string" where
  "example_token secret = ''a=1&b=2&hash='' @ example_signature secret"

definition lower_hex :: "char \<Rightarrow> bool" where
  "lower_hex c = ((48 \<le> code c \<and> code c \<le> 57) \<or> (97 \<le> code c \<and> code c \<le> 102))"

text \<open>The comparison of the handler holds: the token carries a hash and it is the computed one.\<close>

definition signature_matches :: "string \<Rightarrow> string \<Rightarrow> bool" where
  "signature_matches initData botToken =
     (let params = URLSearchParams initData in
      case params_get params ''hash'' of
        None \<Rightarrow> False
      | Some hash \<Rightarrow>
          hash \<noteq> [] \<and> length (computed_hash params botToken) = length hash
          \<and> timingSafeEqual (buffer_from_hex (computed_hash params botToken)) (buffer_from_hex hash)
              = Inr True)"

text \<open>The identity under which \<^verbatim>\<open>POST\<close> and \<^verbatim>\<open>PUT\<close> act for a request, if any.\<close>

definition resolved_identity :: "env \<Rightarrow> request \<Rightarrow> rat option" where
  "resolved_identity e req =
     (case form req of
        None \<Rightarrow> None
      | Some formData \<Rightarrow>
          (case (truthy (form_string formData ''initData''), truthy (TELEGRAM_BOT_TOKEN e)) of
             (Some initData, Some token) \<Rightarrow>
               (let r = validateTelegramInitData initData token in
                if valid r \<and> \<not> no_user (userId r) then userId r else None)
           | _ \<Rightarrow> None))"


text \<open>The calls a handler added to the record.\<close>

definition new_calls :: "store \<Rightarrow> store \<Rightarrow> call list" where
  "new_calls s s' = drop (length (calls s)) (calls s')"

section \<open>Concrete requests for the examples\<close>

definition demo_env :: env where
  "demo_env =
     \<lparr>TELEGRAM_BOT_TOKEN = Some ''SECRET'', now = 1700000000000, random36 = ''k3x9q1'',
      select_error = False,
      upload_reply = UploadData ''documents/1700000000000-k3x9q1-My_Report__v2__.zip'',
      insert_error = None, update_error = None\<rparr>"

definition demo_file :: File where
  "demo_file =
     \<lparr>file_name = ''My Report (v2)!.zip'', file_type = ''application/zip'', file_bytes = ''PK''\<rparr>"

definition demo_token :: string where
  "demo_token = signed_token ''user=%7B%22id%22%3A42%7D'' ''SECRET''"

definition demo_fields :: "(string \<times> form_value) list" where
  "demo_fields =
     [(''firstName'', FString ''Ali''), (''lastName'', FString ''Valiyev''),
      (''university'', FString ''TUIT''), (''program'', FString ''bachelors'')]"

definition demo_request :: request where
  "demo_request =
     \<lparr>query = [], header_x_telegram_init = None,
      form = Some (demo_fields @ [(''document'', FFile demo_file), (''initData'', FString demo_token)])\<rparr>"

definition empty_store :: store where
  "empty_store = \<lparr>rows = [], blobs = [], calls = []\<rparr>"

definition demo_row :: row where
  "demo_row =
     \<lparr>first_name = ''Ali'', last_name = ''Valiyev'', university = ''TUIT'', program = ''bachelors'',
      doc_path = Some ''documents/1700000000000-k3x9q1-My_Report__v2__.zip'',
      telegram_chat_id = Some 42\<rparr>"

definition new_row :: "string \<times> string \<times> string \<times> string \<Rightarrow> string \<Rightarrow> rat option \<Rightarrow> row" where
  "new_row flds path tid =
     (case flds of (f, l, u, p) \<Rightarrow>
        \<lparr>first_name = f, last_name = l, university = u, program = p,
         doc_path = Some path, telegram_chat_id = tid\<rparr>)"

definition demo_store1 :: store where
  "demo_store1 =
     \<lparr>rows = [demo_row],
      blobs = [(''documents/1700000000000-k3x9q1-My_Report__v2__.zip'', demo_file)],
      calls = [CSelect 42, CUpload ''documents/1700000000000-k3x9q1-My_Report__v2__.zip'',
               CInsert demo_row]\<rparr>"

definition conflict_env :: env where
  "conflict_env = demo_env\<lparr>insert_error := Some UniqueViolation\<rparr>"

definition other_error_env :: env where
  "other_error_env = demo_env\<lparr>TELEGRAM_BOT_TOKEN := None, insert_error := Some OtherError\<rparr>"

definition anonymous_request :: request where
  "anonymous_request =
     \<lparr>query = [], header_x_telegram_init = None,
      form = Some (demo_fields @ [(''document'', FFile demo_file)])\<rparr>"

definition anonymous_row :: row where
  "anonymous_row = demo_row\<lparr>telegram_chat_id := None\<rparr>"

definition empty_file :: File where
  "empty_file = \<lparr>file_name = ''empty.zip'', file_type = [], file_bytes = []\<rparr>"

definition empty_doc_env :: env where
  "empty_doc_env =
     demo_env\<lparr>TELEGRAM_BOT_TOKEN := None,
       upload_reply := UploadData ''documents/1700000000000-k3x9q1-empty.zip''\<rparr>"

definition empty_doc_request :: request where
  "empty_doc_request =
     \<lparr>query = [], header_x_telegram_init = None,
      form = Some (demo_fields @ [(''document'', FFile empty_file)])\<rparr>"

definition empty_doc_row :: row where
  "empty_doc_row =
     \<lparr>first_name = ''Ali'', last_name = ''Valiyev'', university = ''TUIT'', program = ''bachelors'',
      doc_path = Some ''documents/1700000000000-k3x9q1-empty.zip'', telegram_chat_id = None\<rparr>"

definition no_name_request :: request where
  "no_name_request =
     \<lparr>query = [], header_x_telegram_init = None,
      form = Some [(''firstName'', FString ''Ali''), (''lastName'', FString []),
                   (''university'', FString ''TUIT''), (''program'', FString ''bachelors''),
                   (''document'', FFile demo_file)]\<rparr>"

definition text_document_request :: request where
  "text_document_request =
     \<lparr>query = [], header_x_telegram_init = None,
      form = Some (demo_fields @ [(''document'', FString ''PK'')])\<rparr>"












section \<open>Hexadecimal digits and digests\<close>

lemma code_byte_of_nat: "code (byte_of_nat n) = n mod 256"
  by (simp add: code_def byte_of_nat_def)

lemma byte_of_nat_code: "byte_of_nat (code c) = c"
  by (simp add: code_def byte_of_nat_def)

lemma code_lt_256: "code c < 256"
  by (simp add: code_def)

lemma code_inj: "code c = code d \<longleftrightarrow> c = d"
  by (simp add: code_def)

lemma code_hex_digit:
  "n < 16 \<Longrightarrow> code (hex_digit n) = (if n < 10 then 48 + n else 87 + n)"
  by (simp add: hex_digit_def code_byte_of_nat)

lemma is_hex_hex_digit: "n < 16 \<Longrightarrow> is_hex (hex_digit n)"
  by (auto simp: is_hex_def is_digit_def code_hex_digit)

lemma hex_val_hex_digit: "n < 16 \<Longrightarrow> hex_val (hex_digit n) = n"
  by (auto simp: hex_val_def is_digit_def code_hex_digit)

lemma lower_hex_digit: "n < 16 \<Longrightarrow> lower_hex (hex_digit n)"
  by (auto simp: lower_hex_def code_hex_digit)

lemma length_to_hex: "length (to_hex bs) = 2 * length bs"
  by (induction bs) (simp_all add: to_hex_def)

lemma to_hex_Cons:
  "to_hex (c # bs) = hex_digit (code c div 16) # hex_digit (code c mod 16) # to_hex bs"
  by (simp add: to_hex_def)

lemma to_hex_Nil: "to_hex [] = []"
  by (simp add: to_hex_def)

lemma div16: "code c div 16 < 16"
  using code_lt_256 [of c] by simp

lemma buffer_from_hex_to_hex: "buffer_from_hex (to_hex bs) = bs"
proof (induction bs)
  case Nil
  show ?case by (simp add: to_hex_Nil)
next
  case (Cons c bs)
  have "byte_of_nat (16 * (code c div 16) + code c mod 16) = c"
    by (simp add: byte_of_nat_code)
  with Cons show ?case
    by (simp add: to_hex_Cons is_hex_hex_digit hex_val_hex_digit div16)
qed

lemma lower_hex_to_hex: "list_all lower_hex (to_hex bs)"
  by (induction bs) (simp_all add: to_hex_Nil to_hex_Cons lower_hex_digit div16)

lemma length_be_bytes: "length (be_bytes k n) = k"
  by (simp add: be_bytes_def)

lemma length_round256: "length s = 8 \<Longrightarrow> length (round256 s kw) = 8"
  by (cases "(s, kw)" rule: round256.cases) (auto simp: Let_def)

lemma length_foldl_round256: "length s = 8 \<Longrightarrow> length (foldl round256 s kws) = 8"
  by (induction kws arbitrary: s) (simp_all add: length_round256)

lemma length_compress: "length hs = 8 \<Longrightarrow> length (compress hs block) = 8"
  by (simp add: compress_def Let_def length_foldl_round256)

lemma length_foldl_compress: "length hs = 8 \<Longrightarrow> length (foldl compress hs blocks) = 8"
  by (induction blocks arbitrary: hs) (simp_all add: length_compress)

lemma length_concat_be4: "length (concat (map (\<lambda>w. be_bytes 4 (unat w)) ws)) = 4 * length ws"
  by (induction ws) (simp_all add: length_be_bytes)

lemma length_sha256: "length (sha256 m) = 32"
  by (simp add: sha256_def length_concat_be4 length_foldl_compress H256_def)

lemma length_hmac_sha256: "length (hmac_sha256 key msg) = 32"
  by (simp add: hmac_sha256_def Let_def length_sha256)

lemma split_on_not_Nil: "split_on c xs \<noteq> []"
  by (induction xs) (auto split: list.splits)

lemma split_on_append:
  "split_on c (xs @ c # ys) = split_on c xs @ split_on c ys"
proof (induction xs)
  case Nil
  show ?case by simp
next
  case (Cons x xs)
  then show ?case
    using split_on_not_Nil [of c xs]
    by (cases "split_on c xs") auto
qed

lemma split_on_absent: "c \<notin> set xs \<Longrightarrow> split_on c xs = [xs]"
  by (induction xs) auto

lemma parse_urlencoded_append:
  "parse_urlencoded (p @ CHR ''&'' # q) = parse_urlencoded p @ parse_urlencoded q"
  by (simp add: parse_urlencoded_def split_on_append)

lemma percent_decode_plain: "CHR ''%'' \<notin> set s \<Longrightarrow> percent_decode s = s"
  by (induction s rule: percent_decode.induct) auto

lemma plus_to_space_plain: "CHR ''+'' \<notin> set s \<Longrightarrow> plus_to_space s = s"
  by (induction s) (auto simp: plus_to_space_def)

lemma form_decode_plain:
  "CHR ''%'' \<notin> set s \<Longrightarrow> CHR ''+'' \<notin> set s \<Longrightarrow> form_decode s = s"
  by (simp add: form_decode_def percent_decode_plain plus_to_space_plain)

lemma code_amp: "code CHR ''&'' = 38" "code CHR ''='' = 61" "code CHR ''+'' = 43" "code CHR ''%'' = 37"
  by (simp_all add: code_def)

lemma lower_hex_not_special:
  assumes "lower_hex c"
  shows "c \<noteq> CHR ''&''" "c \<noteq> CHR ''=''" "c \<noteq> CHR ''+''" "c \<noteq> CHR ''%''"
proof -
  have "code c \<noteq> 38" "code c \<noteq> 61" "code c \<noteq> 43" "code c \<noteq> 37"
    using assms by (auto simp: lower_hex_def)
  then show "c \<noteq> CHR ''&''" "c \<noteq> CHR ''=''" "c \<noteq> CHR ''+''" "c \<noteq> CHR ''%''"
    using code_amp by metis+
qed

lemma lower_hex_set:
  assumes "list_all lower_hex h"
  shows "CHR ''&'' \<notin> set h" "CHR ''='' \<notin> set h" "CHR ''+'' \<notin> set h" "CHR ''%'' \<notin> set h"
proof -
  have all: "\<forall>c\<in>set h. lower_hex c"
    using assms by (simp add: list_all_iff)
  show "CHR ''&'' \<notin> set h" using all lower_hex_not_special(1) by blast
  show "CHR ''='' \<notin> set h" using all lower_hex_not_special(2) by blast
  show "CHR ''+'' \<notin> set h" using all lower_hex_not_special(3) by blast
  show "CHR ''%'' \<notin> set h" using all lower_hex_not_special(4) by blast
qed

lemma parse_single:
  "CHR ''&'' \<notin> set s \<Longrightarrow> s \<noteq> [] \<Longrightarrow> parse_urlencoded s = [parse_pair s]"
  by (simp add: parse_urlencoded_def split_on_absent)

lemma parse_hash_piece:
  assumes "list_all lower_hex h"
  shows "parse_urlencoded (''hash='' @ h) = [(''hash'', h)]"
proof -
  have amp: "CHR ''&'' \<notin> set (''hash='' @ h)"
    using lower_hex_set(1) [OF assms] by simp
  have dec: "form_decode h = h"
    using lower_hex_set [OF assms] by (simp add: form_decode_plain)
  have hash: "form_decode ''hash'' = ''hash''"
    by (simp add: form_decode_plain)
  have pp: "parse_pair (''hash='' @ h) = (''hash'', h)"
    by (simp add: parse_pair_def Let_def dec hash)
  have "parse_urlencoded (''hash='' @ h) = [parse_pair (''hash='' @ h)]"
    by (rule parse_single [OF amp]) simp
  then show ?thesis
    by (simp only: pp)
qed

lemma parse_with_hash:
  assumes "list_all lower_hex h"
  shows "parse_urlencoded (p @ ''&hash='' @ h) = parse_urlencoded p @ [(''hash'', h)]"
proof -
  have "p @ ''&hash='' @ h = p @ CHR ''&'' # (''hash='' @ h)" by simp
  then show ?thesis
    by (simp only: parse_urlencoded_append parse_hash_piece [OF assms])
qed

lemma lower_hex_computed: "list_all lower_hex (computed_hash params s)"
  by (simp add: computed_hash_def Let_def lower_hex_to_hex)

lemma length_computed: "length (computed_hash params s) = 64"
  by (simp add: computed_hash_def Let_def length_to_hex length_hmac_sha256)

lemma computed_not_Nil: "computed_hash params s \<noteq> []"
  using length_computed [of params s] by auto

lemma to_hex_inj: "to_hex a = to_hex b \<longleftrightarrow> a = b"
  by (metis buffer_from_hex_to_hex)

lemma URLSearchParams_with_hash:
  assumes "list_all lower_hex h"
  shows "URLSearchParams (p @ ''&hash='' @ h) = URLSearchParams p @ [(''hash'', h)]"
proof (cases p)
  case Nil
  have "parse_urlencoded ([] @ ''&hash='' @ h) = parse_urlencoded [] @ [(''hash'', h)]"
    by (rule parse_with_hash [OF assms])
  then show ?thesis using Nil by (simp add: URLSearchParams_def)
next
  case (Cons c rest)
  show ?thesis
  proof (cases "c = CHR ''?''")
    case True
    have "parse_urlencoded (rest @ ''&hash='' @ h) = parse_urlencoded rest @ [(''hash'', h)]"
      by (rule parse_with_hash [OF assms])
    then show ?thesis using Cons True by (simp add: URLSearchParams_def)
  next
    case False
    have "parse_urlencoded (p @ ''&hash='' @ h) = parse_urlencoded p @ [(''hash'', h)]"
      by (rule parse_with_hash [OF assms])
    then show ?thesis using Cons False by (simp add: URLSearchParams_def)
  qed
qed

lemma dataCheckString_hash:
  "dataCheckString (params @ [(''hash'', h)]) = dataCheckString params"
  by (simp add: dataCheckString_def)

lemma computed_hash_hash:
  "computed_hash (params @ [(''hash'', h)]) s = computed_hash params s"
  by (simp add: computed_hash_def dataCheckString_hash)

lemma params_get_append:
  "params_get (ps @ qs) k = (case params_get ps k of None \<Rightarrow> params_get qs k | Some v \<Rightarrow> Some v)"
  by (simp add: params_get_def map_add_def split: option.split)

lemma same_buffers:
  "timingSafeEqual (buffer_from_hex (computed_hash ps a)) (buffer_from_hex (computed_hash ps b))
     = Inr (computed_hash ps a = computed_hash ps b)"
  by (simp add: timingSafeEqual_def computed_hash_def Let_def buffer_from_hex_to_hex
        length_hmac_sha256 to_hex_inj)

lemma validate_try_signed:
  assumes nohash: "params_get (URLSearchParams payload) ''hash'' = None"
  shows "validate_try (signed_token payload secret) other =
           (if computed_hash (URLSearchParams payload) other
               = computed_hash (URLSearchParams payload) secret
            then user_result (URLSearchParams payload)
            else Inr \<lparr>valid = False, userId = None\<rparr>)"
proof -
  let ?ps = "URLSearchParams payload"
  let ?h = "computed_hash ?ps secret"
  have params: "URLSearchParams (signed_token payload secret) = ?ps @ [(''hash'', ?h)]"
    unfolding signed_token_def by (rule URLSearchParams_with_hash [OF lower_hex_computed])
  have gh: "params_get (?ps @ [(''hash'', ?h)]) ''hash'' = Some ?h"
    by (simp add: params_get_append nohash) (simp add: params_get_def)
  have gu: "params_get (?ps @ [(''hash'', ?h)]) ''user'' = params_get ?ps ''user''"
    by (simp add: params_get_append split: option.split) (simp add: params_get_def)
  have ur: "user_result (?ps @ [(''hash'', ?h)]) = user_result ?ps"
    by (simp add: user_result_def gu)
  show ?thesis
    unfolding validate_try_def params Let_def gh ur computed_hash_hash
    by (simp add: computed_not_Nil length_computed same_buffers)
qed

section \<open>The verifier on signed tokens\<close>

lemma validate_signed:
  assumes "params_get (URLSearchParams payload) ''hash'' = None"
  shows "validateTelegramInitData (signed_token payload secret) other =
           (if computed_hash (URLSearchParams payload) other
               = computed_hash (URLSearchParams payload) secret
            then (case user_result (URLSearchParams payload) of
                    Inl err \<Rightarrow> Invalid | Inr r \<Rightarrow> r)
            else Invalid)"
  by (simp add: validateTelegramInitData_def validate_try_signed [OF assms] Invalid_def split: sum.split)

lemma example_params: "URLSearchParams ''a=1&b=2'' = [(''a'', ''1''), (''b'', ''2'')]"
  by code_simp

lemma example_check_string:
  "dataCheckString [(''a'', ''1''), (''b'', ''2'')] = ''a=1'' @ [LF] @ ''b=2''"
  by code_simp

lemma example_computed:
  "computed_hash (URLSearchParams ''a=1&b=2'') s = example_signature s"
  by (simp only: example_params computed_hash_def example_check_string example_signature_def Let_def)

lemma example_token_signed: "example_token s = signed_token ''a=1&b=2'' s"
  by (simp only: example_token_def signed_token_def example_computed) simp

lemma example_no_hash: "params_get (URLSearchParams ''a=1&b=2'') ''hash'' = None"
  by code_simp

lemma example_user: "user_result (URLSearchParams ''a=1&b=2'') = Inr ValidNoIdentity"
  by code_simp

lemma validate_example:
  "validateTelegramInitData (example_token secret) other =
     (if example_signature other = example_signature secret then ValidNoIdentity else Invalid)"
  by (simp add: example_token_signed validate_signed [OF example_no_hash] example_computed
        example_user)





section \<open>Order of the pairs\<close>

lemma sort_mset:
  assumes "mset (xs :: string list) = mset ys"
  shows "sort xs = sort ys"
  using assms by (metis properties_for_sort mset_sort sorted_sort)

lemma dataCheckString_mset:
  assumes "mset p1 = mset p2"
  shows "dataCheckString p1 = dataCheckString p2"
proof -
  let ?f = "\<lambda>(key, val). key @ ''='' @ val"
  let ?P = "\<lambda>(key, val). key \<noteq> ''hash''"
  have "mset (map ?f (filter ?P p1)) = mset (map ?f (filter ?P p2))"
    by (simp only: mset_map mset_filter assms)
  then have "sort (map ?f (filter ?P p1)) = sort (map ?f (filter ?P p2))"
    by (rule sort_mset)
  then show ?thesis
    by (simp add: dataCheckString_def)
qed

lemma computed_hash_mset:
  "mset p1 = mset p2 \<Longrightarrow> computed_hash p1 s = computed_hash p2 s"
  by (simp add: computed_hash_def dataCheckString_mset [of p1 p2])

lemma validate_cong:
  assumes "params_get (URLSearchParams t1) ''hash'' = params_get (URLSearchParams t2) ''hash''"
    and "params_get (URLSearchParams t1) ''user'' = params_get (URLSearchParams t2) ''user''"
    and "computed_hash (URLSearchParams t1) s = computed_hash (URLSearchParams t2) s"
  shows "validateTelegramInitData t1 s = validateTelegramInitData t2 s"
  unfolding validateTelegramInitData_def validate_try_def user_result_def Let_def assms
  by (rule refl)

lemma map_of_mset:
  assumes "mset p1 = mset p2" and "distinct (map fst p1)"
  shows "map_of p1 = map_of p2"
proof -
  have "mset (map fst p1) = mset (map fst p2)"
    by (simp only: mset_map assms(1))
  then have "distinct (map fst p2)"
    using assms(2) by (metis mset_eq_imp_distinct_iff)
  moreover have "set p1 = set p2"
    using assms(1) by (rule mset_eq_setD)
  ultimately show ?thesis
    using assms(2) by (simp add: map_of_inject_set)
qed

text \<open>
  Claim C2, as amended. For every secret and any two tokens holding the same pairs in
  different orders, the check-string and the signature computed from it are the same: the
  strings \<^verbatim>\<open>key=value\<close> are sorted before they are joined. The two tokens get the same
  result of verification whenever the first \<^verbatim>\<open>hash\<close> and the first \<^verbatim>\<open>user\<close> of one are those
  of the other, in particular when no key is repeated.
\<close>

theorem check_string_order_independent:
  assumes "mset (URLSearchParams t1) = mset (URLSearchParams t2)"
  shows "dataCheckString (URLSearchParams t1) = dataCheckString (URLSearchParams t2)
    \<and> computed_hash (URLSearchParams t1) s = computed_hash (URLSearchParams t2) s
    \<and> (params_get (URLSearchParams t1) ''hash'' = params_get (URLSearchParams t2) ''hash''
         \<and> params_get (URLSearchParams t1) ''user'' = params_get (URLSearchParams t2) ''user''
         \<longrightarrow> validateTelegramInitData t1 s = validateTelegramInitData t2 s)
    \<and> (distinct (map fst (URLSearchParams t1))
         \<longrightarrow> validateTelegramInitData t1 s = validateTelegramInitData t2 s)"
proof (intro conjI impI)
  show "dataCheckString (URLSearchParams t1) = dataCheckString (URLSearchParams t2)"
    using assms by (rule dataCheckString_mset)
  show c: "computed_hash (URLSearchParams t1) s = computed_hash (URLSearchParams t2) s"
    using assms by (rule computed_hash_mset)
  show "validateTelegramInitData t1 s = validateTelegramInitData t2 s"
    if "params_get (URLSearchParams t1) ''hash'' = params_get (URLSearchParams t2) ''hash''
         \<and> params_get (URLSearchParams t1) ''user'' = params_get (URLSearchParams t2) ''user''"
    using that c by (intro validate_cong) simp_all
  show "validateTelegramInitData t1 s = validateTelegramInitData t2 s"
    if "distinct (map fst (URLSearchParams t1))"
  proof -
    have "map_of (URLSearchParams t1) = map_of (URLSearchParams t2)"
      using assms that by (rule map_of_mset)
    then show ?thesis
      using c by (intro validate_cong) (simp_all add: params_get_def)
  qed
qed

lemma swapped_params: "URLSearchParams ''b=2&a=1'' = [(''b'', ''2''), (''a'', ''1'')]"
  by code_simp

lemma example_token_params:
  "URLSearchParams (example_token s) = [(''a'', ''1''), (''b'', ''2''), (''hash'', example_signature s)]"
proof -
  have "list_all lower_hex (example_signature s)"
    by (simp add: example_signature_def lower_hex_to_hex)
  then have "URLSearchParams (''a=1&b=2'' @ ''&hash='' @ example_signature s)
      = URLSearchParams ''a=1&b=2'' @ [(''hash'', example_signature s)]"
    by (rule URLSearchParams_with_hash)
  then show ?thesis
    by (simp add: example_token_def example_params)
qed

lemma swapped_token_params:
  "URLSearchParams (''b=2&a=1&hash='' @ example_signature s)
     = [(''b'', ''2''), (''a'', ''1''), (''hash'', example_signature s)]"
proof -
  have "list_all lower_hex (example_signature s)"
    by (simp add: example_signature_def lower_hex_to_hex)
  then have "URLSearchParams (''b=2&a=1'' @ ''&hash='' @ example_signature s)
      = URLSearchParams ''b=2&a=1'' @ [(''hash'', example_signature s)]"
    by (rule URLSearchParams_with_hash)
  then show ?thesis
    by (simp add: swapped_params)
qed

text \<open>
  \<^verbatim>\<open>a=1&b=2&hash=<H>\<close> and \<^verbatim>\<open>b=2&a=1&hash=<H>\<close> are both verified against the secret of
  \<^verbatim>\<open><H>\<close>.
\<close>

theorem check_string_order_independent_witness:
  "mset (URLSearchParams (example_token ''SECRET''))
     = mset (URLSearchParams (''b=2&a=1&hash='' @ example_signature ''SECRET''))
   \<and> URLSearchParams (example_token ''SECRET'')
     \<noteq> URLSearchParams (''b=2&a=1&hash='' @ example_signature ''SECRET'')
   \<and> validateTelegramInitData (example_token ''SECRET'') ''SECRET'' = ValidNoIdentity
   \<and> validateTelegramInitData (''b=2&a=1&hash='' @ example_signature ''SECRET'') ''SECRET''
     = ValidNoIdentity"
proof -
  let ?t1 = "example_token ''SECRET''"
  let ?t2 = "''b=2&a=1&hash='' @ example_signature ''SECRET''"
  have m: "mset (URLSearchParams ?t1) = mset (URLSearchParams ?t2)"
    by (simp only: example_token_params swapped_token_params) simp
  have d: "distinct (map fst (URLSearchParams ?t1))"
    by (simp only: example_token_params) simp
  have ne: "URLSearchParams ?t1 \<noteq> URLSearchParams ?t2"
    by (simp only: example_token_params swapped_token_params) simp
  have "validateTelegramInitData ?t1 ''SECRET'' = validateTelegramInitData ?t2 ''SECRET''"
    using check_string_order_independent [OF m, of "''SECRET''"] d by blast
  moreover have "validateTelegramInitData ?t1 ''SECRET'' = ValidNoIdentity"
    by (simp add: validate_example)
  ultimately show ?thesis
    using m ne by simp
qed

lemma signed_token_params:
  "URLSearchParams (signed_token p s)
     = URLSearchParams p @ [(''hash'', computed_hash (URLSearchParams p) s)]"
  unfolding signed_token_def by (rule URLSearchParams_with_hash [OF lower_hex_computed])

lemma two_users_params:
  "URLSearchParams ''user=%7B%22id%22%3A1%7D&user=%7B%22id%22%3A2%7D''
     = [(''user'', form_decode ''%7B%22id%22%3A1%7D''), (''user'', form_decode ''%7B%22id%22%3A2%7D'')]"
  by code_simp

lemma two_users_swapped_params:
  "URLSearchParams ''user=%7B%22id%22%3A2%7D&user=%7B%22id%22%3A1%7D''
     = [(''user'', form_decode ''%7B%22id%22%3A2%7D''), (''user'', form_decode ''%7B%22id%22%3A1%7D'')]"
  by code_simp

lemma two_users_no_hash:
  "params_get (URLSearchParams ''user=%7B%22id%22%3A1%7D&user=%7B%22id%22%3A2%7D'') ''hash'' = None"
  "params_get (URLSearchParams ''user=%7B%22id%22%3A2%7D&user=%7B%22id%22%3A1%7D'') ''hash'' = None"
  by code_simp+

lemma two_users_result:
  "user_result (URLSearchParams ''user=%7B%22id%22%3A1%7D&user=%7B%22id%22%3A2%7D'')
     = Inr (ValidWithIdentity 1)"
  "user_result (URLSearchParams ''user=%7B%22id%22%3A2%7D&user=%7B%22id%22%3A1%7D'')
     = Inr (ValidWithIdentity 2)"
  by code_simp+

text \<open>
  The claim as stated fails on a token that repeats \<^verbatim>\<open>user\<close>: \<^verbatim>\<open>params.get("user")\<close> reads the
  first one. The two tokens below hold the same pairs, \<^verbatim>\<open>user={"id":1}\<close>, \<^verbatim>\<open>user={"id":2}\<close>
  and the same \<^verbatim>\<open>hash\<close>; both are valid, one for the identity 1, the other for 2.
\<close>

theorem repeated_user_order_matters:
  "mset (URLSearchParams (signed_token ''user=%7B%22id%22%3A1%7D&user=%7B%22id%22%3A2%7D'' ''SECRET''))
     = mset (URLSearchParams (signed_token ''user=%7B%22id%22%3A2%7D&user=%7B%22id%22%3A1%7D'' ''SECRET''))
   \<and> validateTelegramInitData
         (signed_token ''user=%7B%22id%22%3A1%7D&user=%7B%22id%22%3A2%7D'' ''SECRET'') ''SECRET''
       = ValidWithIdentity 1
   \<and> validateTelegramInitData
         (signed_token ''user=%7B%22id%22%3A2%7D&user=%7B%22id%22%3A1%7D'' ''SECRET'') ''SECRET''
       = ValidWithIdentity 2"
proof -
  let ?p1 = "''user=%7B%22id%22%3A1%7D&user=%7B%22id%22%3A2%7D''"
  let ?p2 = "''user=%7B%22id%22%3A2%7D&user=%7B%22id%22%3A1%7D''"
  have m: "mset (URLSearchParams ?p1) = mset (URLSearchParams ?p2)"
    by (simp only: two_users_params two_users_swapped_params) simp
  then have c: "computed_hash (URLSearchParams ?p1) ''SECRET''
      = computed_hash (URLSearchParams ?p2) ''SECRET''"
    by (rule computed_hash_mset)
  have "mset (URLSearchParams (signed_token ?p1 ''SECRET''))
      = mset (URLSearchParams (signed_token ?p2 ''SECRET''))"
    by (simp only: signed_token_params mset_append m c)
  moreover have "validateTelegramInitData (signed_token ?p1 ''SECRET'') ''SECRET'' = ValidWithIdentity 1"
    by (simp add: validate_signed [OF two_users_no_hash(1)] two_users_result(1))
  moreover have "validateTelegramInitData (signed_token ?p2 ''SECRET'') ''SECRET'' = ValidWithIdentity 2"
    by (simp add: validate_signed [OF two_users_no_hash(2)] two_users_result(2))
  ultimately show ?thesis
    by (intro conjI)
qed

section \<open>The three results\<close>

lemma user_result_forms:
  "user_result ps = Inr r \<Longrightarrow> valid r"
  by (auto simp: user_result_def split: option.splits if_splits)

lemma validate_try_forms:
  "validate_try i t = Inr r \<Longrightarrow> valid r \<or> r = Invalid"
  by (auto simp: validate_try_def Let_def Invalid_def user_result_forms
           split: option.splits if_splits sum.splits)

lemma init_result_cases:
  "valid r \<or> r = Invalid \<Longrightarrow>
     r = Invalid \<or> r = ValidNoIdentity \<or> (\<exists>n. r = ValidWithIdentity n)"
  by (cases r; cases "userId r") (auto simp: Invalid_def ValidNoIdentity_def ValidWithIdentity_def)

lemma validate_three_results:
  "validateTelegramInitData i t = Invalid
   \<or> validateTelegramInitData i t = ValidNoIdentity
   \<or> (\<exists>n. validateTelegramInitData i t = ValidWithIdentity n)"
proof (cases "validate_try i t")
  case (Inl err)
  then show ?thesis
    by (simp add: validateTelegramInitData_def Invalid_def)
next
  case (Inr r)
  then have "validateTelegramInitData i t = r"
    by (simp add: validateTelegramInitData_def)
  then show ?thesis
    using init_result_cases [OF validate_try_forms [OF Inr]] by simp
qed

lemma validate_no_hash:
  "params_get (URLSearchParams i) ''hash'' = None \<Longrightarrow> validateTelegramInitData i t = Invalid"
  by (simp add: validateTelegramInitData_def validate_try_def Invalid_def)

lemma user_result_bad_json:
  "params_get ps ''user'' = Some u \<Longrightarrow> JSON_parse u = None \<Longrightarrow>
     user_result ps = Inl SyntaxError \<or> user_result ps = Inr ValidNoIdentity"
  by (simp add: user_result_def ValidNoIdentity_def)

lemma validate_bad_json:
  assumes "params_get (URLSearchParams i) ''user'' = Some u" and "JSON_parse u = None"
  shows "validateTelegramInitData i t = Invalid \<or> validateTelegramInitData i t = ValidNoIdentity"
  using user_result_bad_json [OF assms]
  by (auto simp: validateTelegramInitData_def validate_try_def Let_def Invalid_def
           split: option.splits sum.splits)

lemma validate_caught:
  "validate_try i t = Inl err \<Longrightarrow> validateTelegramInitData i t = Invalid"
  by (simp add: validateTelegramInitData_def Invalid_def)

text \<open>
  Claim C3. For every input and every secret \<^verbatim>\<open>validateTelegramInitData\<close> returns Invalid,
  ValidNoIdentity or ValidWithIdentity of a number. With no \<^verbatim>\<open>hash\<close> field the result is
  Invalid; with a \<^verbatim>\<open>user\<close> field that is no JSON it is Invalid or ValidNoIdentity; every
  exception thrown inside the \<^verbatim>\<open>try\<close> block becomes Invalid.
\<close>

theorem verify_never_raises:
  "(validateTelegramInitData i t = Invalid
      \<or> validateTelegramInitData i t = ValidNoIdentity
      \<or> (\<exists>n. validateTelegramInitData i t = ValidWithIdentity n))
   \<and> (params_get (URLSearchParams i) ''hash'' = None \<longrightarrow> validateTelegramInitData i t = Invalid)
   \<and> (\<forall>u. params_get (URLSearchParams i) ''user'' = Some u \<and> JSON_parse u = None \<longrightarrow>
          validateTelegramInitData i t = Invalid \<or> validateTelegramInitData i t = ValidNoIdentity)
   \<and> (\<forall>err. validate_try i t = Inl err \<longrightarrow> validateTelegramInitData i t = Invalid)"
  using validate_three_results [of i t] validate_no_hash [of i t] validate_bad_json [of i _ t]
    validate_caught [of i t]
  by blast

lemma signed_token_user:
  "params_get (URLSearchParams (signed_token p s)) ''user'' = params_get (URLSearchParams p) ''user''"
  by (simp add: signed_token_params params_get_append split: option.split)
     (simp add: params_get_def)

lemma signed_token_hash:
  assumes "params_get (URLSearchParams p) ''hash'' = None"
  shows "params_get (URLSearchParams (signed_token p s)) ''hash''
           = Some (computed_hash (URLSearchParams p) s)"
  by (simp add: signed_token_params params_get_append assms) (simp add: params_get_def)

lemma signature_matches_signed:
  assumes "params_get (URLSearchParams p) ''hash'' = None"
  shows "signature_matches (signed_token p s) s"
  unfolding signature_matches_def Let_def signed_token_hash [OF assms]
  by (simp add: signed_token_params computed_hash_hash computed_not_Nil length_computed same_buffers)

lemma validate_try_matches:
  assumes "signature_matches i t"
  shows "validate_try i t = user_result (URLSearchParams i)"
  using assms
  by (auto simp: signature_matches_def validate_try_def Let_def split: option.splits)

lemma bad_user_no_hash: "params_get (URLSearchParams ''user=x'') ''hash'' = None"
  by code_simp

lemma bad_user_param: "params_get (URLSearchParams ''user=x'') ''user'' = Some ''x''"
  by code_simp

lemma bad_user_json: "JSON_parse ''x'' = None"
  by code_simp

lemma bad_user_result: "user_result (URLSearchParams ''user=x'') = Inl SyntaxError"
  by code_simp

lemma bad_user_try: "validate_try (signed_token ''user=x'' ''SECRET'') ''SECRET'' = Inl SyntaxError"
  by (simp add: validate_try_signed [OF bad_user_no_hash] bad_user_result)

lemma no_hash_param: "params_get (URLSearchParams ''a=1'') ''hash'' = None"
  by code_simp

lemma not_hex_params:
  "URLSearchParams (''hash='' @ replicate 64 CHR ''z'') = [(''hash'', replicate 64 CHR ''z'')]"
  by code_simp

lemma not_hex_buffer: "buffer_from_hex (replicate 64 CHR ''z'') = []"
  by code_simp

lemma not_hex_try:
  "validate_try (''hash='' @ replicate 64 CHR ''z'') ''SECRET'' = Inl RangeError"
proof -
  have "buffer_from_hex (computed_hash ps ''SECRET'') \<noteq> []" for ps
    using length_hmac_sha256 [of "hmac_sha256 ''WebAppData'' ''SECRET''" "dataCheckString ps"]
    by (auto simp: computed_hash_def Let_def buffer_from_hex_to_hex)
  then show ?thesis
    unfolding validate_try_def Let_def not_hex_params
    by (simp add: params_get_def length_computed not_hex_buffer timingSafeEqual_def)
qed

text \<open>
  Three malformed inputs: no \<^verbatim>\<open>hash\<close>; a signed token whose \<^verbatim>\<open>user\<close> is \<^verbatim>\<open>x\<close> (the
  SyntaxError of \<^verbatim>\<open>JSON.parse\<close>); a \<^verbatim>\<open>hash\<close> of 64 characters that are no hexadecimal
  digits (the RangeError of \<^verbatim>\<open>timingSafeEqual\<close>).
\<close>

theorem verify_never_raises_witness:
  "params_get (URLSearchParams ''a=1'') ''hash'' = None
   \<and> validateTelegramInitData ''a=1'' ''SECRET'' = Invalid
   \<and> params_get (URLSearchParams (signed_token ''user=x'' ''SECRET'')) ''user'' = Some ''x''
   \<and> JSON_parse ''x'' = None
   \<and> validate_try (signed_token ''user=x'' ''SECRET'') ''SECRET'' = Inl SyntaxError
   \<and> validateTelegramInitData (signed_token ''user=x'' ''SECRET'') ''SECRET'' = Invalid
   \<and> validate_try (''hash='' @ replicate 64 CHR ''z'') ''SECRET'' = Inl RangeError
   \<and> validateTelegramInitData (''hash='' @ replicate 64 CHR ''z'') ''SECRET'' = Invalid"
proof -
  have "validateTelegramInitData ''a=1'' ''SECRET'' = Invalid"
    using verify_never_raises [of "''a=1''" "''SECRET''"] no_hash_param by blast
  moreover have "validateTelegramInitData (signed_token ''user=x'' ''SECRET'') ''SECRET'' = Invalid"
    using verify_never_raises [of "signed_token ''user=x'' ''SECRET''" "''SECRET''"] bad_user_try
    by blast
  moreover have "validateTelegramInitData (''hash='' @ replicate 64 CHR ''z'') ''SECRET'' = Invalid"
    using verify_never_raises [of "''hash='' @ replicate 64 CHR ''z''" "''SECRET''"] not_hex_try
    by blast
  ultimately show ?thesis
    using no_hash_param bad_user_param bad_user_json bad_user_try not_hex_try
    by (simp add: signed_token_user)
qed

text \<open>
  Claim C4, as amended. For every token whose signature matches: with no \<^verbatim>\<open>user\<close> field or
  an empty one the result is ValidNoIdentity; with a \<^verbatim>\<open>user\<close> that \<^verbatim>\<open>JSON.parse\<close> rejects it is
  Invalid; with a \<^verbatim>\<open>user\<close> that parses, it is ValidWithIdentity of the \<^verbatim>\<open>id\<close> when that is a
  number (an integer or not), and ValidNoIdentity otherwise.
\<close>

theorem verify_user_field:
  assumes "signature_matches i t"
  shows "validateTelegramInitData i t =
           (case params_get (URLSearchParams i) ''user'' of
              None \<Rightarrow> ValidNoIdentity
            | Some u \<Rightarrow>
                if u = [] then ValidNoIdentity
                else (case JSON_parse u of
                        None \<Rightarrow> Invalid
                      | Some j \<Rightarrow>
                          (case number_id j of
                             None \<Rightarrow> ValidNoIdentity
                           | Some n \<Rightarrow> ValidWithIdentity n)))"
  by (simp add: validateTelegramInitData_def validate_try_matches [OF assms] user_result_def
        Invalid_def ValidNoIdentity_def ValidWithIdentity_def split: option.split)

lemma string_id_no_hash:
  "params_get (URLSearchParams ''user=%7B%22id%22%3A%227%22%7D'') ''hash'' = None"
  by code_simp

lemma string_id_result:
  "(case params_get (URLSearchParams ''user=%7B%22id%22%3A%227%22%7D'') ''user'' of
      None \<Rightarrow> ValidNoIdentity
    | Some u \<Rightarrow>
        if u = [] then ValidNoIdentity
        else (case JSON_parse u of
                None \<Rightarrow> Invalid
              | Some j \<Rightarrow>
                  (case number_id j of
                     None \<Rightarrow> ValidNoIdentity
                   | Some n \<Rightarrow> ValidWithIdentity n))) = ValidNoIdentity"
  by code_simp

lemma string_id_json:
  "map_option (\<lambda>u. (u \<noteq> [], map_option number_id (JSON_parse u)))
     (params_get (URLSearchParams ''user=%7B%22id%22%3A%227%22%7D'') ''user'')
   = Some (True, Some None)"
  by code_simp

text \<open>A signed token whose \<^verbatim>\<open>user\<close> is \<^verbatim>\<open>{"id":"7"}\<close>: the \<^verbatim>\<open>id\<close> is a string.\<close>

theorem verify_user_field_witness:
  "signature_matches (signed_token ''user=%7B%22id%22%3A%227%22%7D'' ''SECRET'') ''SECRET''
   \<and> map_option (\<lambda>u. (u \<noteq> [], map_option number_id (JSON_parse u)))
        (params_get (URLSearchParams (signed_token ''user=%7B%22id%22%3A%227%22%7D'' ''SECRET'')) ''user'')
      = Some (True, Some None)
   \<and> validateTelegramInitData (signed_token ''user=%7B%22id%22%3A%227%22%7D'' ''SECRET'') ''SECRET''
      = ValidNoIdentity"
proof -
  let ?t = "signed_token ''user=%7B%22id%22%3A%227%22%7D'' ''SECRET''"
  have sm: "signature_matches ?t ''SECRET''"
    by (rule signature_matches_signed [OF string_id_no_hash])
  have "validateTelegramInitData ?t ''SECRET'' = ValidNoIdentity"
    using verify_user_field [OF sm] by (simp only: signed_token_user string_id_result)
  then show ?thesis
    using sm string_id_json by (simp only: signed_token_user)
qed

lemma float_id_no_hash:
  "params_get (URLSearchParams ''user=%7B%22id%22%3A1.5%7D'') ''hash'' = None"
  by code_simp

lemma float_id_result:
  "user_result (URLSearchParams ''user=%7B%22id%22%3A1.5%7D'') = Inr (ValidWithIdentity (3 / 2))"
  by code_simp

text \<open>
  The claim as stated fails twice. A signed token whose \<^verbatim>\<open>user\<close> is \<^verbatim>\<open>x\<close> is Invalid, not
  ValidNoIdentity: the SyntaxError is caught by the \<^verbatim>\<open>catch\<close> block. A signed token whose
  \<^verbatim>\<open>user\<close> is \<^verbatim>\<open>{"id":1.5}\<close> is valid with the identity 1.5: the handler tests
  \<^verbatim>\<open>typeof id === "number"\<close>, not that the number is an integer.
\<close>

theorem non_json_user_is_invalid:
  "signature_matches (signed_token ''user=x'' ''SECRET'') ''SECRET''
   \<and> params_get (URLSearchParams (signed_token ''user=x'' ''SECRET'')) ''user'' = Some ''x''
   \<and> JSON_parse ''x'' = None
   \<and> validateTelegramInitData (signed_token ''user=x'' ''SECRET'') ''SECRET'' = Invalid
   \<and> validateTelegramInitData (signed_token ''user=x'' ''SECRET'') ''SECRET'' \<noteq> ValidNoIdentity
   \<and> signature_matches (signed_token ''user=%7B%22id%22%3A1.5%7D'' ''SECRET'') ''SECRET''
   \<and> validateTelegramInitData (signed_token ''user=%7B%22id%22%3A1.5%7D'' ''SECRET'') ''SECRET''
       = ValidWithIdentity (3 / 2)"
proof -
  have "validateTelegramInitData (signed_token ''user=x'' ''SECRET'') ''SECRET'' = Invalid"
    by (simp add: validate_caught [OF bad_user_try])
  moreover have "Invalid \<noteq> ValidNoIdentity"
    by (simp add: Invalid_def ValidNoIdentity_def)
  moreover have "validateTelegramInitData (signed_token ''user=%7B%22id%22%3A1.5%7D'' ''SECRET'') ''SECRET''
       = ValidWithIdentity (3 / 2)"
    by (simp add: validate_signed [OF float_id_no_hash] float_id_result)
  ultimately show ?thesis
    using signature_matches_signed [OF bad_user_no_hash] signature_matches_signed [OF float_id_no_hash]
      bad_user_param bad_user_json
    by (simp add: signed_token_user)
qed

section \<open>The handlers on the store\<close>

lemma digit_chars:
  "byte_of_nat 48 = CHR ''0''" "byte_of_nat 49 = CHR ''1''" "byte_of_nat 50 = CHR ''2''"
  "byte_of_nat 51 = CHR ''3''" "byte_of_nat 52 = CHR ''4''" "byte_of_nat 53 = CHR ''5''"
  "byte_of_nat 54 = CHR ''6''" "byte_of_nat 55 = CHR ''7''" "byte_of_nat 56 = CHR ''8''"
  "byte_of_nat 57 = CHR ''9''"
  by code_simp+

lemma demo_filePath:
  "filePath demo_env demo_file = ''documents/1700000000000-k3x9q1-My_Report__v2__.zip''"
  by (simp add: filePath_def demo_env_def demo_file_def show_nat.simps safeFileName_def
        safe_char_def is_digit_def code_def digit_chars)

lemma demo_no_hash: "params_get (URLSearchParams ''user=%7B%22id%22%3A42%7D'') ''hash'' = None"
  by code_simp

lemma demo_user: "user_result (URLSearchParams ''user=%7B%22id%22%3A42%7D'') = Inr (ValidWithIdentity 42)"
  by code_simp

lemma demo_validate: "validateTelegramInitData demo_token ''SECRET'' = ValidWithIdentity 42"
  by (simp add: demo_token_def validate_signed [OF demo_no_hash] demo_user)

lemma demo_token_not_Nil: "demo_token \<noteq> []"
  by (simp add: demo_token_def signed_token_def)

lemma demo_text_fields:
  "text_fields (demo_fields @ rest) = Some (''Ali'', ''Valiyev'', ''TUIT'', ''bachelors'')"
  by (simp add: text_fields_def form_string_def demo_fields_def)

lemma demo_document:
  "document_file (demo_fields @ (''document'', v) # rest) = (case v of FFile f \<Rightarrow> Some f | _ \<Rightarrow> None)"
  by (simp add: document_file_def demo_fields_def split: form_value.split)

lemma demo_initData:
  "form_string (demo_fields @ [(''document'', v), (''initData'', FString i)]) ''initData'' = Some i"
  by (simp add: form_string_def demo_fields_def)

lemma demo_resolved: "resolved_identity demo_env demo_request = Some 42"
  by (simp add: resolved_identity_def demo_request_def demo_initData demo_token_not_Nil
        demo_env_def demo_validate ValidWithIdentity_def)

lemma upload_and_insert_eq:
  "upload_and_insert e s flds doc tid =
     (case upload_reply e of
        UploadError \<Rightarrow>
          (json_response (Message ''Failed to upload document'') 500,
           s\<lparr>calls := calls s @ [CUpload (filePath e doc)]\<rparr>)
      | UploadData path \<Rightarrow>
          if path = []
          then (json_response (Message ''Failed to upload document'') 500,
                s\<lparr>calls := calls s @ [CUpload (filePath e doc)],
                  blobs := blobs s @ [(filePath e doc, doc)]\<rparr>)
          else
            (case insert_error e of
               Some err \<Rightarrow>
                 (json_response (Message ''Failed to save submission'') 500,
                  s\<lparr>calls := calls s @ [CUpload (filePath e doc), CInsert (new_row flds path tid)],
                    blobs := blobs s @ [(filePath e doc, doc)]\<rparr>)
             | None \<Rightarrow>
                 (json_response Ok 200,
                  s\<lparr>calls := calls s @ [CUpload (filePath e doc), CInsert (new_row flds path tid)],
                    blobs := blobs s @ [(filePath e doc, doc)],
                    rows := rows s @ [new_row flds path tid]\<rparr>)))"
  by (cases flds)
     (simp add: upload_and_insert_def storage_upload_def db_insert_def new_row_def Let_def
        split: upload_reply.split option.split)

lemma POST_no_form:
  "form req = None \<Longrightarrow> POST e s req = (json_response (Message ''Unexpected error'') 500, s)"
  by (simp add: POST_def)

lemma POST_missing:
  "form req = Some fd \<Longrightarrow> text_fields fd = None \<or> document_file fd = None \<Longrightarrow>
     POST e s req = (json_response (Message ''Missing required fields'') 400, s)"
  by (auto simp: POST_def split: option.splits)

lemma POST_anonymous:
  assumes "form req = Some fd" "text_fields fd = Some flds" "document_file fd = Some doc"
    and "truthy (form_string fd ''initData'') = None \<or> truthy (TELEGRAM_BOT_TOKEN e) = None"
  shows "POST e s req = upload_and_insert e s flds doc None"
  using assms by (auto simp: POST_def split: option.splits)

lemma POST_identified:
  assumes "form req = Some fd" "text_fields fd = Some flds" "document_file fd = Some doc"
    and "resolved_identity e req = Some uid"
  shows "POST e s req =
           (if select_error e
            then (json_response (Message msg_check_failed) 500, s\<lparr>calls := calls s @ [CSelect uid]\<rparr>)
            else if filter (matching uid) (rows s) \<noteq> []
            then (json_response (Message msg_already) 409, s\<lparr>calls := calls s @ [CSelect uid]\<rparr>)
            else upload_and_insert e (s\<lparr>calls := calls s @ [CSelect uid]\<rparr>) flds doc (Some uid))"
  using assms
  by (auto simp: POST_def resolved_identity_def db_select_def Let_def
           split: option.splits if_splits)

lemma POST_unresolved:
  assumes "form req = Some fd" "text_fields fd = Some flds" "document_file fd = Some doc"
    and "truthy (form_string fd ''initData'') = Some i" "truthy (TELEGRAM_BOT_TOKEN e) = Some t"
    and "resolved_identity e req = None"
  shows "POST e s req = (json_response (Message msg_not_verified) 401, s)
       \<or> POST e s req = (json_response (Message msg_no_user) 400, s)"
  using assms
  by (auto simp: POST_def resolved_identity_def Let_def split: option.splits if_splits)







lemma new_row_id: "telegram_chat_id (new_row flds path tid) = tid"
  by (cases flds) (simp add: new_row_def)








lemma matching_new_row: "matching uid (new_row flds path (Some uid))"
  by (simp add: matching_def new_row_id)




lemma POST_cases:
  obtains
    (no_form) "form req = None"
      "POST e s req = (json_response (Message ''Unexpected error'') 500, s)"
  | (missing) fd where "form req = Some fd" "text_fields fd = None \<or> document_file fd = None"
      "POST e s req = (json_response (Message ''Missing required fields'') 400, s)"
  | (anonymous) fd flds doc where "form req = Some fd" "text_fields fd = Some flds"
      "document_file fd = Some doc"
      "truthy (form_string fd ''initData'') = None \<or> truthy (TELEGRAM_BOT_TOKEN e) = None"
      "POST e s req = upload_and_insert e s flds doc None"
  | (unresolved) fd flds doc where "form req = Some fd" "text_fields fd = Some flds"
      "document_file fd = Some doc" "truthy (TELEGRAM_BOT_TOKEN e) \<noteq> None"
      "resolved_identity e req = None"
      "POST e s req = (json_response (Message msg_not_verified) 401, s)
       \<or> POST e s req = (json_response (Message msg_no_user) 400, s)"
  | (identified) fd flds doc uid where "form req = Some fd" "text_fields fd = Some flds"
      "document_file fd = Some doc" "truthy (TELEGRAM_BOT_TOKEN e) \<noteq> None"
      "resolved_identity e req = Some uid"
      "POST e s req =
         (if select_error e
          then (json_response (Message msg_check_failed) 500, s\<lparr>calls := calls s @ [CSelect uid]\<rparr>)
          else if filter (matching uid) (rows s) \<noteq> []
          then (json_response (Message msg_already) 409, s\<lparr>calls := calls s @ [CSelect uid]\<rparr>)
          else upload_and_insert e (s\<lparr>calls := calls s @ [CSelect uid]\<rparr>) flds doc (Some uid))"
proof (cases "form req")
  case None
  then show ?thesis using no_form POST_no_form by blast
next
  case (Some fd)
  show ?thesis
  proof (cases "text_fields fd = None \<or> document_file fd = None")
    case True
    then show ?thesis using missing [OF Some True] POST_missing [OF Some True] by blast
  next
    case False
    then obtain flds doc where fd: "text_fields fd = Some flds" "document_file fd = Some doc"
      by auto
    show ?thesis
    proof (cases "truthy (form_string fd ''initData'') = None \<or> truthy (TELEGRAM_BOT_TOKEN e) = None")
      case True
      then show ?thesis
        using anonymous [OF Some fd True] POST_anonymous [OF Some fd True] by blast
    next
      case False
      then obtain i t where it: "truthy (form_string fd ''initData'') = Some i"
          "truthy (TELEGRAM_BOT_TOKEN e) = Some t"
        by auto
      then have tok: "truthy (TELEGRAM_BOT_TOKEN e) \<noteq> None"
        by simp
      show ?thesis
      proof (cases "resolved_identity e req")
        case None
        then show ?thesis
          using unresolved [OF Some fd tok None] POST_unresolved [OF Some fd it None] by blast
      next
        case (Some uid)
        then show ?thesis
          using identified [OF \<open>form req = Some fd\<close> fd tok Some]
            POST_identified [OF \<open>form req = Some fd\<close> fd Some] by blast
      qed
    qed
  qed
qed

lemma demo_form: "form demo_request
    = Some (demo_fields @ [(''document'', FFile demo_file), (''initData'', FString demo_token)])"
  by (simp add: demo_request_def)

lemma demo_POST:
  assumes "resolved_identity e demo_request = Some 42"
  shows "POST e s demo_request =
         (if select_error e
          then (json_response (Message msg_check_failed) 500, s\<lparr>calls := calls s @ [CSelect 42]\<rparr>)
          else if filter (matching 42) (rows s) \<noteq> []
          then (json_response (Message msg_already) 409, s\<lparr>calls := calls s @ [CSelect 42]\<rparr>)
          else upload_and_insert e (s\<lparr>calls := calls s @ [CSelect 42]\<rparr>)
                 (''Ali'', ''Valiyev'', ''TUIT'', ''bachelors'') demo_file (Some 42))"
  by (rule POST_identified [OF demo_form demo_text_fields _ assms]) (simp add: demo_document)

lemma demo_env_sel:
  "select_error demo_env = False"
  "upload_reply demo_env = UploadData ''documents/1700000000000-k3x9q1-My_Report__v2__.zip''"
  "insert_error demo_env = None" "update_error demo_env = None"
  "TELEGRAM_BOT_TOKEN demo_env = Some ''SECRET''"
  by (simp_all add: demo_env_def)

lemma demo_first_call:
  "POST demo_env empty_store demo_request = (json_response Ok 200, demo_store1)"
  by (simp add: demo_POST [OF demo_resolved] upload_and_insert_eq demo_filePath demo_env_sel
        empty_store_def demo_store1_def new_row_def demo_row_def)

lemma demo_second_call:
  "POST demo_env demo_store1 demo_request
     = (json_response (Message msg_already) 409, demo_store1\<lparr>calls := calls demo_store1 @ [CSelect 42]\<rparr>)"
  by (simp add: demo_POST [OF demo_resolved] demo_env_sel demo_store1_def demo_row_def matching_def)


lemma new_calls_simps:
  "new_calls s s = []"
  "new_calls s (s\<lparr>calls := calls s @ cs\<rparr>) = cs"
  "new_calls s (s\<lparr>calls := calls s @ cs, blobs := b\<rparr>) = cs"
  "new_calls s (s\<lparr>calls := calls s @ cs, blobs := b, rows := r\<rparr>) = cs"
  by (simp_all add: new_calls_def)

lemma upload_and_insert_failed:
  assumes "insert_error e = Some err"
    and "CInsert r \<in> set (new_calls s0 (snd (upload_and_insert e s flds doc tid)))"
    and "calls s = calls s0 @ cs" and "\<forall>c \<in> set cs. \<forall>r. c \<noteq> CInsert r"
  shows "fst (upload_and_insert e s flds doc tid)
           = json_response (Message ''Failed to save submission'') 500
         \<and> rows (snd (upload_and_insert e s flds doc tid)) = rows s"
  using assms
  by (auto simp: upload_and_insert_eq new_calls_def split: upload_reply.splits)

lemma upload_and_insert_status:
  "status (fst (upload_and_insert e s flds doc tid)) = 200
   \<or> status (fst (upload_and_insert e s flds doc tid)) = 500"
  by (simp add: upload_and_insert_eq json_response_def split: upload_reply.split option.split)

lemma msg_status:
  "status (json_response b n) = n" "body (json_response b n) = b"
  by (simp_all add: json_response_def)

text \<open>
  Claim C6, as amended. When the insert is called and reports an error, of whatever kind,
  \<^verbatim>\<open>POST\<close> answers 500 with "Failed to save submission" and the rows are as before. The
  answer 409 comes from the lookup alone: the request resolves to an identity, a row of
  that identity is in the table, and the lookup is the only call made.
\<close>

theorem insert_error_is_persistence_failure:
  "(insert_error e = Some err \<and> CInsert r \<in> set (new_calls s (snd (POST e s req))) \<longrightarrow>
      fst (POST e s req) = json_response (Message ''Failed to save submission'') 500
      \<and> rows (snd (POST e s req)) = rows s)
   \<and> (status (fst (POST e s req)) = 409 \<longrightarrow>
      (\<exists>uid. resolved_identity e req = Some uid \<and> filter (matching uid) (rows s) \<noteq> []
         \<and> new_calls s (snd (POST e s req)) = [CSelect uid]))"
proof (cases rule: POST_cases [of req e s])
  case no_form
  then show ?thesis by (simp add: new_calls_simps msg_status)
next
  case (missing fd)
  then show ?thesis by (simp add: new_calls_simps msg_status)
next
  case (anonymous fd flds doc)
  have "status (fst (upload_and_insert e s flds doc None)) \<noteq> 409"
    using upload_and_insert_status [of e s flds doc None] by auto
  then show ?thesis
    using anonymous(5) upload_and_insert_failed [of e err r s s flds doc None "[]"]
    by auto
next
  case (unresolved fd flds doc)
  then show ?thesis by (auto simp: new_calls_simps msg_status)
next
  case (identified fd flds doc uid)
  let ?s1 = "s\<lparr>calls := calls s @ [CSelect uid]\<rparr>"
  have "status (fst (upload_and_insert e ?s1 flds doc (Some uid))) \<noteq> 409"
    using upload_and_insert_status [of e ?s1 flds doc "Some uid"] by auto
  moreover have "fst (upload_and_insert e ?s1 flds doc (Some uid))
           = json_response (Message ''Failed to save submission'') 500
         \<and> rows (snd (upload_and_insert e ?s1 flds doc (Some uid))) = rows s"
    if "insert_error e = Some err"
      "CInsert r \<in> set (new_calls s (snd (upload_and_insert e ?s1 flds doc (Some uid))))"
    using upload_and_insert_failed [of e err r s ?s1 flds doc "Some uid" "[CSelect uid]"] that
    by simp
  ultimately show ?thesis
    using identified(5,6) by (auto simp: new_calls_simps msg_status)
qed

lemma empty_store_sel:
  "rows empty_store = []" "blobs empty_store = []" "calls empty_store = []"
  by (simp_all add: empty_store_def)

lemma resolved_identity_env:
  "TELEGRAM_BOT_TOKEN e' = TELEGRAM_BOT_TOKEN e \<Longrightarrow> resolved_identity e' req = resolved_identity e req"
  unfolding resolved_identity_def by (erule subst) (rule refl)

lemma conflict_resolved: "resolved_identity conflict_env demo_request = Some 42"
  using demo_resolved resolved_identity_env [of conflict_env demo_env demo_request]
  by (simp add: conflict_env_def)

lemma conflict_env_sel:
  "select_error conflict_env = False"
  "upload_reply conflict_env = UploadData ''documents/1700000000000-k3x9q1-My_Report__v2__.zip''"
  "insert_error conflict_env = Some UniqueViolation"
  by (simp_all add: conflict_env_def demo_env_def)

lemma filePath_env:
  "now e' = now e \<Longrightarrow> random36 e' = random36 e \<Longrightarrow> filePath e' f = filePath e f"
  by (simp add: filePath_def)

lemma conflict_filePath:
  "filePath conflict_env demo_file = ''documents/1700000000000-k3x9q1-My_Report__v2__.zip''"
  using filePath_env [of conflict_env demo_env demo_file] demo_filePath
  by (simp add: conflict_env_def)

lemma conflict_call:
  "POST conflict_env empty_store demo_request
     = (json_response (Message ''Failed to save submission'') 500, demo_store1\<lparr>rows := []\<rparr>)"
  by (simp add: demo_POST [OF conflict_resolved] upload_and_insert_eq conflict_filePath
        conflict_env_sel empty_store_def demo_store1_def new_row_def demo_row_def)

text \<open>
  The claim as stated fails: the user 42 has no row, the lookup finds none, the insert
  reports a violation of uniqueness, and the answer is 500, not 409.
\<close>

theorem insert_conflict_is_500:
  "resolved_identity conflict_env demo_request = Some 42
   \<and> filter (matching 42) (rows empty_store) = []
   \<and> insert_error conflict_env = Some UniqueViolation
   \<and> POST conflict_env empty_store demo_request
       = (json_response (Message ''Failed to save submission'') 500, demo_store1\<lparr>rows := []\<rparr>)
   \<and> calls (demo_store1\<lparr>rows := []\<rparr>)
       = [CSelect 42, CUpload ''documents/1700000000000-k3x9q1-My_Report__v2__.zip'',
          CInsert demo_row]
   \<and> status (fst (POST conflict_env empty_store demo_request)) \<noteq> 409"
  by (simp add: conflict_resolved conflict_call conflict_env_sel msg_status)
     (simp add: empty_store_def demo_store1_def)

lemma anonymous_form:
  "form anonymous_request = Some (demo_fields @ [(''document'', FFile demo_file)])"
  by (simp add: anonymous_request_def)

lemma no_initData: "truthy (form_string (demo_fields @ [(''document'', v)]) ''initData'') = None"
  by (simp add: form_string_def demo_fields_def)

lemma other_error_env_sel:
  "upload_reply other_error_env = UploadData ''documents/1700000000000-k3x9q1-My_Report__v2__.zip''"
  "insert_error other_error_env = Some OtherError"
  by (simp_all add: other_error_env_def demo_env_def)

lemma other_error_filePath:
  "filePath other_error_env demo_file = ''documents/1700000000000-k3x9q1-My_Report__v2__.zip''"
  using filePath_env [of other_error_env demo_env demo_file] demo_filePath
  by (simp add: other_error_env_def)

lemma other_error_call:
  "POST other_error_env empty_store anonymous_request
     = (json_response (Message ''Failed to save submission'') 500,
        \<lparr>rows = [],
         blobs = [(''documents/1700000000000-k3x9q1-My_Report__v2__.zip'', demo_file)],
         calls = [CUpload ''documents/1700000000000-k3x9q1-My_Report__v2__.zip'',
                  CInsert anonymous_row]\<rparr>)"
proof -
  have "POST other_error_env empty_store anonymous_request
      = upload_and_insert other_error_env empty_store (''Ali'', ''Valiyev'', ''TUIT'', ''bachelors'')
          demo_file None"
    by (rule POST_anonymous [OF anonymous_form demo_text_fields])
       (simp_all add: demo_document no_initData)
  then show ?thesis
    by (simp add: upload_and_insert_eq other_error_filePath other_error_env_sel empty_store_def
          new_row_def anonymous_row_def demo_row_def)
qed

text \<open>
  An anonymous request whose insert fails is answered 500; the second call of the user 42
  is answered 409 after the lookup alone.
\<close>

theorem insert_error_is_persistence_failure_witness:
  "insert_error other_error_env = Some OtherError
   \<and> CInsert anonymous_row \<in> set (new_calls empty_store (snd (POST other_error_env empty_store anonymous_request)))
   \<and> fst (POST other_error_env empty_store anonymous_request)
       = json_response (Message ''Failed to save submission'') 500
   \<and> rows (snd (POST other_error_env empty_store anonymous_request)) = rows empty_store
   \<and> status (fst (POST demo_env demo_store1 demo_request)) = 409
   \<and> resolved_identity demo_env demo_request = Some 42
   \<and> filter (matching 42) (rows demo_store1) \<noteq> []
   \<and> new_calls demo_store1 (snd (POST demo_env demo_store1 demo_request)) = [CSelect 42]"
proof -
  have ins: "CInsert anonymous_row
      \<in> set (new_calls empty_store (snd (POST other_error_env empty_store anonymous_request)))"
    by (simp add: other_error_call new_calls_def empty_store_sel)
  have st: "status (fst (POST demo_env demo_store1 demo_request)) = 409"
    by (simp add: demo_second_call msg_status)
  note a = insert_error_is_persistence_failure [of other_error_env OtherError anonymous_row
      empty_store anonymous_request]
  note b = insert_error_is_persistence_failure [of demo_env OtherError anonymous_row
      demo_store1 demo_request]
  have "fst (POST other_error_env empty_store anonymous_request)
       = json_response (Message ''Failed to save submission'') 500"
    "rows (snd (POST other_error_env empty_store anonymous_request)) = rows empty_store"
    using a ins other_error_env_sel(2) by blast+
  moreover have "filter (matching 42) (rows demo_store1) \<noteq> []"
    "new_calls demo_store1 (snd (POST demo_env demo_store1 demo_request)) = [CSelect 42]"
    using b st demo_resolved by auto
  ultimately show ?thesis
    using ins st other_error_env_sel(2) demo_resolved by simp
qed

lemma text_fields_None:
  "text_fields fd = None \<longleftrightarrow>
     falsy (form_string fd ''firstName'') \<or> falsy (form_string fd ''lastName'')
     \<or> falsy (form_string fd ''university'') \<or> falsy (form_string fd ''program'')"
proof -
  have t: "truthy x = None \<longleftrightarrow> falsy x" for x
    by (cases x) simp_all
  show ?thesis
    by (auto simp: text_fields_def t [symmetric] split: option.splits)
qed

lemma document_file_None:
  "document_file fd = None \<longleftrightarrow> (\<forall>f. map_of fd ''document'' \<noteq> Some (FFile f))"
  by (auto simp: document_file_def split: option.splits form_value.splits)

lemma message_differs:
  "msg_no_user \<noteq> ''Missing required fields''"
  by (simp add: msg_no_user_def)

lemma POST_not_missing:
  assumes "form req = Some fd" "text_fields fd \<noteq> None" "document_file fd = Some doc"
  shows "fst (POST e s req) \<noteq> json_response (Message ''Missing required fields'') 400"
proof (cases rule: POST_cases [of req e s])
  case no_form
  then show ?thesis using assms by simp
next
  case (missing fd')
  then show ?thesis using assms by auto
next
  case (anonymous fd' flds doc')
  then show ?thesis
    using upload_and_insert_status [of e s flds doc' None]
    by (auto simp: json_response_def)
next
  case (unresolved fd' flds doc')
  then show ?thesis
    by (auto simp: json_response_def message_differs)
next
  case (identified fd' flds doc' uid)
  then show ?thesis
    using upload_and_insert_status [of e "s\<lparr>calls := calls s @ [CSelect uid]\<rparr>" flds doc' "Some uid"]
    by (auto simp: json_response_def)
qed

text \<open>
  Claim C7, as amended. \<^verbatim>\<open>POST\<close> answers 400 with "Missing required fields", before any call to
  the store, exactly when one of the four text fields is absent or empty or the field
  \<^verbatim>\<open>document\<close> is not a file. A file passes this check whatever its bytes.
\<close>

theorem missing_fields_rejected:
  "(form req = Some fd \<and> (text_fields fd = None \<or> document_file fd = None) \<longrightarrow>
      POST e s req = (json_response (Message ''Missing required fields'') 400, s))
   \<and> (form req = Some fd \<and> text_fields fd \<noteq> None \<and> document_file fd = Some doc \<longrightarrow>
      fst (POST e s req) \<noteq> json_response (Message ''Missing required fields'') 400)
   \<and> (text_fields fd = None \<longleftrightarrow>
        falsy (form_string fd ''firstName'') \<or> falsy (form_string fd ''lastName'')
        \<or> falsy (form_string fd ''university'') \<or> falsy (form_string fd ''program''))
   \<and> (document_file fd = None \<longleftrightarrow> (\<forall>f. map_of fd ''document'' \<noteq> Some (FFile f)))"
  using POST_missing [of req fd e s] POST_not_missing [of req fd doc e s]
    text_fields_None [of fd] document_file_None [of fd]
  by blast

lemma no_name_form:
  "form no_name_request
     = Some [(''firstName'', FString ''Ali''), (''lastName'', FString []),
             (''university'', FString ''TUIT''), (''program'', FString ''bachelors''),
             (''document'', FFile demo_file)]"
  by (simp add: no_name_request_def)

lemma no_name_fields:
  "text_fields [(''firstName'', FString ''Ali''), (''lastName'', FString []),
             (''university'', FString ''TUIT''), (''program'', FString ''bachelors''),
             (''document'', FFile demo_file)] = None"
  by (simp add: text_fields_def form_string_def)

lemma text_document_form:
  "form text_document_request = Some (demo_fields @ [(''document'', FString ''PK'')])"
  by (simp add: text_document_request_def)

lemma text_document_missing:
  "document_file (demo_fields @ [(''document'', FString ''PK'')]) = None"
  by (simp add: demo_document)

text \<open>An empty \<^verbatim>\<open>lastName\<close>, then a \<^verbatim>\<open>document\<close> that is a string: both are answered 400.\<close>

theorem missing_fields_rejected_witness:
  "form no_name_request
     = Some [(''firstName'', FString ''Ali''), (''lastName'', FString []),
             (''university'', FString ''TUIT''), (''program'', FString ''bachelors''),
             (''document'', FFile demo_file)]
   \<and> falsy (form_string [(''firstName'', FString ''Ali''), (''lastName'', FString []),
             (''university'', FString ''TUIT''), (''program'', FString ''bachelors''),
             (''document'', FFile demo_file)] ''lastName'')
   \<and> POST demo_env empty_store no_name_request
       = (json_response (Message ''Missing required fields'') 400, empty_store)
   \<and> map_of (demo_fields @ [(''document'', FString ''PK'')]) ''document'' = Some (FString ''PK'')
   \<and> POST demo_env empty_store text_document_request
       = (json_response (Message ''Missing required fields'') 400, empty_store)
   \<and> fst (POST demo_env empty_store demo_request)
       \<noteq> json_response (Message ''Missing required fields'') 400"
proof -
  have "POST demo_env empty_store no_name_request
       = (json_response (Message ''Missing required fields'') 400, empty_store)"
    using missing_fields_rejected [of no_name_request _ demo_env empty_store] no_name_form
      no_name_fields by blast
  moreover have "POST demo_env empty_store text_document_request
       = (json_response (Message ''Missing required fields'') 400, empty_store)"
    using missing_fields_rejected [of text_document_request _ demo_env empty_store]
      text_document_form text_document_missing by blast
  moreover have "fst (POST demo_env empty_store demo_request)
       \<noteq> json_response (Message ''Missing required fields'') 400"
    by (simp add: demo_first_call json_response_def)
  ultimately show ?thesis
    by (simp add: no_name_form form_string_def demo_fields_def)
qed

lemma empty_doc_form:
  "form empty_doc_request = Some (demo_fields @ [(''document'', FFile empty_file)])"
  by (simp add: empty_doc_request_def)

lemma empty_doc_filePath:
  "filePath empty_doc_env empty_file = ''documents/1700000000000-k3x9q1-empty.zip''"
  by (simp add: filePath_def empty_doc_env_def demo_env_def empty_file_def show_nat.simps
        safeFileName_def safe_char_def is_digit_def code_def digit_chars)

lemma empty_doc_env_sel:
  "upload_reply empty_doc_env = UploadData ''documents/1700000000000-k3x9q1-empty.zip''"
  "insert_error empty_doc_env = None"
  by (simp_all add: empty_doc_env_def demo_env_def)

lemma empty_doc_call:
  "POST empty_doc_env empty_store empty_doc_request
       = (json_response Ok 200,
          \<lparr>rows = [empty_doc_row],
           blobs = [(''documents/1700000000000-k3x9q1-empty.zip'', empty_file)],
           calls = [CUpload ''documents/1700000000000-k3x9q1-empty.zip'', CInsert empty_doc_row]\<rparr>)"
proof -
  have "POST empty_doc_env empty_store empty_doc_request
      = upload_and_insert empty_doc_env empty_store (''Ali'', ''Valiyev'', ''TUIT'', ''bachelors'')
          empty_file None"
    by (rule POST_anonymous [OF empty_doc_form demo_text_fields])
       (simp_all add: demo_document no_initData)
  then show ?thesis
    by (simp add: upload_and_insert_eq empty_doc_filePath empty_doc_env_sel empty_store_sel
          new_row_def empty_doc_row_def)
qed

text \<open>
  The claim as stated fails on a file of zero bytes: it is uploaded, the row is inserted and
  the answer is 200.
\<close>

theorem empty_document_accepted:
  "file_bytes empty_file = []
   \<and> map_of (demo_fields @ [(''document'', FFile empty_file)]) ''document'' = Some (FFile empty_file)
   \<and> POST empty_doc_env empty_store empty_doc_request
       = (json_response Ok 200,
          \<lparr>rows = [empty_doc_row],
           blobs = [(''documents/1700000000000-k3x9q1-empty.zip'', empty_file)],
           calls = [CUpload ''documents/1700000000000-k3x9q1-empty.zip'', CInsert empty_doc_row]\<rparr>)"
  by (simp add: empty_doc_call) (simp add: empty_file_def demo_fields_def)





























end
